theory Spec2Isabelle
  imports Main "HOL-Library.Sublist"
begin

section \<open>The world the patcher runs in\<close>

text \<open>
  A path is its list of components, so \<open>path.join(a, 'x', 'y')\<close> is \<open>a @ [''x'', ''y'']\<close>
  and "p is q or an ancestor of q" is \<open>prefix p q\<close>. The file system maps a path to
  a file (its text and its modification time) or a directory. It has no permissions and
  no locks: an operation fails only for the reasons written out below.
\<close>

type_synonym path = "string list"

datatype node = File (content: string) (mtime: nat) | Dir

type_synonym fs = "path \<Rightarrow> node option"

text \<open>The child processes the scripts start with \<open>execSync\<close>, by command line.\<close>

datatype command =
    TaskList
  | TaskKill bool
  | VersionProbe string
  | AsarExtract string path path
  | AsarPack string path path
  | NpmInstallGhostery path
  | NpmInstallProduction path

text \<open>What the process did to the outside, in order (the console output is left out).\<close>

datatype event =
    Exec command
  | Mkdir path
  | Rm path
  | CopyFile path path
  | Rename path path
  | Prompt string

datatype error =
    AsarNotFound path
  | MainJsNotFound path
  | PatchedMainNotFound path
  | RepackedNotFound path
  | UnsupportedPlatform string
  | CommandFailed command
  | FsError string path

record state =
  files :: fs
  now :: nat
  trace :: "event list"
  useExistingBackup :: bool

text \<open>
  What the process is given and cannot compute: the host, the directories, the line the
  user types at the prompt, and the child processes. A child process is opaque: \<open>tool\<close>
  gets the number of events so far (so that the same command may behave differently
  later), the command, the file system and the clock, and answers whether it exited
  with status 0, and the file system and the clock it left.
\<close>

record env =
  os_platform :: string
  os_tmpdir :: path
  os_homedir :: path
  dirname :: path
  npm_execpath :: "string option"
  answer :: string
  tool :: "nat \<Rightarrow> command \<Rightarrow> fs \<Rightarrow> nat \<Rightarrow> bool \<times> fs \<times> nat"

subsection \<open>Results: return, throw, or \<open>process.exit\<close>\<close>

datatype 'a result = Return 'a state | Throw error state | Exit nat state

type_synonym 'a prog = "state \<Rightarrow> 'a result"

fun state_of :: "'a result \<Rightarrow> state" where
  "state_of (Return a s) = s"
| "state_of (Throw e s) = s"
| "state_of (Exit c s) = s"

fun returned :: "'a result \<Rightarrow> 'a option" where
  "returned (Return a s) = Some a"
| "returned _ = None"

fun thrown :: "'a result \<Rightarrow> error option" where
  "thrown (Throw e s) = Some e"
| "thrown _ = None"

fun exited :: "'a result \<Rightarrow> nat option" where
  "exited (Exit c s) = Some c"
| "exited _ = None"

definition then_do :: "'a prog \<Rightarrow> ('a \<Rightarrow> 'b prog) \<Rightarrow> 'b prog" where
  "then_do m f s =
     (case m s of Return a s' \<Rightarrow> f a s' | Throw e s' \<Rightarrow> Throw e s' | Exit c s' \<Rightarrow> Exit c s')"

definition and_then :: "unit prog \<Rightarrow> 'b prog \<Rightarrow> 'b prog" where
  "and_then m k = then_do m (\<lambda>_. k)"

text \<open>\<open>try { m } catch (e) { h e }\<close>: a \<open>process.exit\<close> inside \<open>m\<close> is not caught.\<close>

definition try_catch :: "'a prog \<Rightarrow> (error \<Rightarrow> 'a prog) \<Rightarrow> 'a prog" where
  "try_catch m h s =
     (case m s of Return a s' \<Rightarrow> Return a s' | Throw e s' \<Rightarrow> h e s' | Exit c s' \<Rightarrow> Exit c s')"

definition emit :: "event \<Rightarrow> state \<Rightarrow> state" where
  "emit ev s = s\<lparr>trace := trace s @ [ev]\<rparr>"

subsection \<open>\<open>fs\<close>, \<open>child_process\<close>, timers\<close>

definition existsSync :: "path \<Rightarrow> state \<Rightarrow> bool" where
  "existsSync p s = (files s p \<noteq> None)"

fun is_file :: "node option \<Rightarrow> bool" where
  "is_file (Some (File c m)) = True"
| "is_file _ = False"

text \<open>\<open>fs.mkdirSync(p, { recursive: true })\<close>: creates the missing ancestors too, leaves
  what exists, and fails when \<open>p\<close> or an ancestor is a file.\<close>

definition mkdirSync :: "path \<Rightarrow> unit prog" where
  "mkdirSync p s =
     (if list_ex (\<lambda>q. is_file (files s q)) (prefixes p)
      then Throw (FsError ''EEXIST'' p) (emit (Mkdir p) s)
      else Return ()
             ((emit (Mkdir p) s)
                \<lparr>files := (\<lambda>q. if prefix q p \<and> files s q = None then Some Dir else files s q)\<rparr>))"

text \<open>\<open>fs.rmSync(p, { recursive: true, force: true })\<close>: removes \<open>p\<close> and all below it;
  a missing \<open>p\<close> is not an error.\<close>

definition rmSync :: "path \<Rightarrow> unit prog" where
  "rmSync p s =
     Return () ((emit (Rm p) s)\<lparr>files := (\<lambda>q. if prefix p q then None else files s q)\<rparr>)"

definition readFileSync :: "path \<Rightarrow> string prog" where
  "readFileSync p s =
     (case files s p of
        None \<Rightarrow> Throw (FsError ''ENOENT'' p) s
      | Some Dir \<Rightarrow> Throw (FsError ''EISDIR'' p) s
      | Some (File c m) \<Rightarrow> Return c s)"

text \<open>\<open>fs.copyFileSync(src, dst)\<close>: \<open>src\<close> must be a file, \<open>dst\<close> must not be a directory
  and must lie in an existing directory; \<open>dst\<close> is created or overwritten, and stamped
  with the current time (whether the copy keeps the time of the source instead depends
  on the platform; no statement below depends on it).\<close>

definition copyFileSync :: "path \<Rightarrow> path \<Rightarrow> unit prog" where
  "copyFileSync src dst s =
     (case files s src of
        None \<Rightarrow> Throw (FsError ''ENOENT'' src) (emit (CopyFile src dst) s)
      | Some Dir \<Rightarrow> Throw (FsError ''EISDIR'' src) (emit (CopyFile src dst) s)
      | Some (File c m) \<Rightarrow>
          if files s dst = Some Dir then Throw (FsError ''EISDIR'' dst) (emit (CopyFile src dst) s)
          else if files s (butlast dst) \<noteq> Some Dir
            then Throw (FsError ''ENOENT'' dst) (emit (CopyFile src dst) s)
          else Return () ((emit (CopyFile src dst) s)\<lparr>files := (files s)(dst \<mapsto> File c (now s))\<rparr>))"

text \<open>\<open>fs.renameSync(src, dst)\<close> on Windows: moves \<open>src\<close> with all below it; fails when
  \<open>src\<close> is missing, when \<open>dst\<close> is an existing directory or lies below \<open>src\<close>, or when the
  directory of \<open>dst\<close> is missing.\<close>

definition renameSync :: "path \<Rightarrow> path \<Rightarrow> unit prog" where
  "renameSync src dst s =
     (if files s src = None then Throw (FsError ''ENOENT'' src) (emit (Rename src dst) s)
      else if src = dst then Return () (emit (Rename src dst) s)
      else if prefix src dst then Throw (FsError ''EINVAL'' dst) (emit (Rename src dst) s)
      else if files s dst = Some Dir then Throw (FsError ''EPERM'' dst) (emit (Rename src dst) s)
      else if files s (butlast dst) \<noteq> Some Dir
        then Throw (FsError ''ENOENT'' dst) (emit (Rename src dst) s)
      else Return ()
             ((emit (Rename src dst) s)
                \<lparr>files := (\<lambda>q. if prefix dst q then files s (src @ drop (length dst) q)
                               else if prefix src q then None
                               else files s q)\<rparr>))"

text \<open>\<open>execSync(cmd)\<close>: runs the child process to its end and throws when it exits with a
  status other than 0; what the child did to the file system stays either way.\<close>

definition execSync :: "env \<Rightarrow> command \<Rightarrow> unit prog" where
  "execSync E cmd s =
     (case tool E (length (trace s)) cmd (files s) (now s) of
        (ok, f, t) \<Rightarrow>
          if ok then Return () ((emit (Exec cmd) s)\<lparr>files := f, now := t\<rparr>)
          else Throw (CommandFailed cmd) ((emit (Exec cmd) s)\<lparr>files := f, now := t\<rparr>))"

definition sleep :: "nat \<Rightarrow> unit prog" where
  "sleep ms s = Return () (s\<lparr>now := now s + ms\<rparr>)"

definition process_exit :: "nat \<Rightarrow> 'a prog" where
  "process_exit c s = Exit c s"

subsection \<open>Strings\<close>

definition str_includes :: "string \<Rightarrow> string \<Rightarrow> bool" where
  "str_includes s t = sublist t s"

fun string_of_nat :: "nat \<Rightarrow> string" where
  "string_of_nat n =
     (if n < 10 then [''0123456789'' ! n]
      else string_of_nat (n div 10) @ [''0123456789'' ! (n mod 10)])"

declare string_of_nat.simps [simp del]

definition toLowerCase :: "string \<Rightarrow> string" where
  "toLowerCase s =
     map (\<lambda>c. case map_of (zip ''ABCDEFGHIJKLMNOPQRSTUVWXYZ'' ''abcdefghijklmnopqrstuvwxyz'') c of
                 None \<Rightarrow> c | Some d \<Rightarrow> d) s"

definition is_space :: "char \<Rightarrow> bool" where
  "is_space c = (c \<in> set [CHR '' '', CHR 0x09, CHR 0x0A, CHR 0x0B, CHR 0x0C, CHR 0x0D])"

definition trim :: "string \<Rightarrow> string" where
  "trim s = rev (dropWhile is_space (rev (dropWhile is_space s)))"

section \<open>The patcher: \<open>class DeezerPatcher\<close>\<close>

record platform_paths =
  deezerPath :: path
  asarFile :: string
  executable :: string

record patcher =
  platform :: string
  tempDir :: path
  backupDir :: path
  packageManager :: string
  paths :: platform_paths

definition detectPackageManager :: "env \<Rightarrow> string prog" where
  "detectPackageManager E =
     (case npm_execpath E of
        Some p \<Rightarrow>
          if p \<noteq> [] then
            (\<lambda>s. Return (if str_includes p ''pnpm'' then ''pnpm''
                          else if str_includes p ''yarn'' then ''yarn'' else ''npm'') s)
          else
            try_catch (then_do (execSync E (VersionProbe ''pnpm'')) (\<lambda>_. Return ''pnpm''))
              (\<lambda>_. try_catch (then_do (execSync E (VersionProbe ''yarn'')) (\<lambda>_. Return ''yarn''))
                 (\<lambda>_. Return ''npm''))
      | None \<Rightarrow>
          try_catch (then_do (execSync E (VersionProbe ''pnpm'')) (\<lambda>_. Return ''pnpm''))
            (\<lambda>_. try_catch (then_do (execSync E (VersionProbe ''yarn'')) (\<lambda>_. Return ''yarn''))
               (\<lambda>_. Return ''npm'')))"

definition getPlatformPaths :: "env \<Rightarrow> string \<Rightarrow> platform_paths prog" where
  "getPlatformPaths E pf =
     (if pf = ''win32'' then
        Return \<lparr>deezerPath = os_homedir E @ [''AppData'', ''Local'', ''Programs'', ''deezer-desktop''],
                asarFile = ''app.asar'', executable = ''Deezer.exe''\<rparr>
      else if pf = ''darwin'' then
        Return \<lparr>deezerPath = [''Applications'', ''Deezer.app'', ''Contents'', ''Resources''],
                asarFile = ''app.asar'', executable = ''Deezer''\<rparr>
      else if pf = ''linux'' then
        Return \<lparr>deezerPath = [''opt'', ''deezer-desktop'', ''resources''],
                asarFile = ''app.asar'', executable = ''deezer-desktop''\<rparr>
      else Throw (UnsupportedPlatform pf))"

definition DeezerPatcher :: "env \<Rightarrow> patcher prog" where
  "DeezerPatcher E s =
     (let td = os_tmpdir E @ [''deezer-patch-'' @ string_of_nat (now s)] in
      then_do (detectPackageManager E) (\<lambda>pm.
      then_do (getPlatformPaths E (os_platform E)) (\<lambda>pp.
      Return \<lparr>platform = os_platform E, tempDir = td, backupDir = dirname E @ [''backups''],
              packageManager = pm, paths = pp\<rparr>)) s)"

text \<open>The three paths the steps compute again and again.\<close>

definition originalAsar :: "patcher \<Rightarrow> path" where
  "originalAsar P = deezerPath (paths P) @ [''resources'', asarFile (paths P)]"

definition backupFile :: "patcher \<Rightarrow> path" where
  "backupFile P = deezerPath (paths P) @ [''resources'', ''app.bak.asar'']"

definition extractPath :: "patcher \<Rightarrow> path" where
  "extractPath P = tempDir P @ [''extracted'']"

definition newAsarPath :: "patcher \<Rightarrow> path" where
  "newAsarPath P = tempDir P @ [''app.new.asar'']"

definition tempCheck :: "env \<Rightarrow> nat \<Rightarrow> path" where
  "tempCheck E t = os_tmpdir E @ [''deezer-check-'' @ string_of_nat t]"

definition step0_KillDeezer :: "patcher \<Rightarrow> env \<Rightarrow> unit prog" where
  "step0_KillDeezer P E =
     try_catch
       (if platform P = ''win32'' then
          try_catch
            (and_then (execSync E TaskList)
            (and_then (try_catch (execSync E (TaskKill False)) (\<lambda>_. execSync E (TaskKill True)))
                      (sleep 2000)))
            (\<lambda>_. Return ())
        else Return ())
       (\<lambda>_. Return ())"

definition checkPatchSignature :: "patcher \<Rightarrow> env \<Rightarrow> path \<Rightarrow> bool prog" where
  "checkPatchSignature P E asarPath =
     try_catch
       (\<lambda>s. (let tc = tempCheck E (now s) in
         and_then (mkdirSync tc)
        (and_then (execSync E (AsarExtract ''npm'' asarPath tc))
        (\<lambda>s1. if existsSync (tc @ [''build'', ''main.js'']) s1 then
                 then_do (readFileSync (tc @ [''build'', ''main.js''])) (\<lambda>content.
                 and_then (rmSync tc)
                   (Return (str_includes content ''DZ_DEVTOOLS'' \<or> str_includes content ''[inject]''))) s1
               else and_then (rmSync tc) (Return False) s1))) s)
       (\<lambda>_. Return False)"

definition askUserConfirmation :: "env \<Rightarrow> string \<Rightarrow> bool prog" where
  "askUserConfirmation E question s =
     Return (trim (toLowerCase (answer E)) = ''y'' \<or> trim (toLowerCase (answer E)) = ''yes'')
            (emit (Prompt question) s)"

definition step0_CheckIfPatched :: "patcher \<Rightarrow> env \<Rightarrow> unit prog" where
  "step0_CheckIfPatched P E s =
     (if \<not> existsSync (originalAsar P) s then Throw (AsarNotFound (originalAsar P)) s
      else then_do (checkPatchSignature P E (originalAsar P)) (\<lambda>isPatched s1.
        if isPatched then
          (if existsSync (backupFile P) s1 then
             then_do (askUserConfirmation E
               ''Deezer is already patched. Do you want to repatch using the backup file? (y/n): '')
               (\<lambda>shouldRepatch s2.
                  if shouldRepatch then Return () (s2\<lparr>useExistingBackup := True\<rparr>)
                  else process_exit 0 s2) s1
           else process_exit 1 s1)
        else Return () s1) s)"

definition step1_CreateBackup :: "patcher \<Rightarrow> env \<Rightarrow> unit prog" where
  "step1_CreateBackup P E s =
     (if \<not> existsSync (originalAsar P) s then Throw (AsarNotFound (originalAsar P)) s
      else if existsSync (backupFile P) s \<and> \<not> useExistingBackup s then Return () s
      else if useExistingBackup s then Return () s
      else copyFileSync (originalAsar P) (backupFile P) s)"

definition step2_CreateTempFolder :: "patcher \<Rightarrow> env \<Rightarrow> unit prog" where
  "step2_CreateTempFolder P E s =
     and_then (if existsSync (tempDir P) s then rmSync (tempDir P) else Return ())
              (mkdirSync (tempDir P)) s"

definition step3_ExtractAsar :: "patcher \<Rightarrow> env \<Rightarrow> unit prog" where
  "step3_ExtractAsar P E s =
     (let sourceAsar = (if useExistingBackup s then deezerPath (paths P) @ [''resources'', ''app.bak.asar'']
                        else deezerPath (paths P) @ [''resources'', asarFile (paths P)])
      in execSync E (AsarExtract (packageManager P) sourceAsar (extractPath P)) s)"

definition step4_RenameMainJs :: "patcher \<Rightarrow> env \<Rightarrow> unit prog" where
  "step4_RenameMainJs P E s =
     (if \<not> existsSync (extractPath P @ [''build'', ''main.js'']) s
      then Throw (MainJsNotFound (extractPath P @ [''build'', ''main.js''])) s
      else renameSync (extractPath P @ [''build'', ''main.js''])
                      (extractPath P @ [''build'', ''main.original.js'']) s)"

definition step5_CopyNewMainJs :: "patcher \<Rightarrow> env \<Rightarrow> unit prog" where
  "step5_CopyNewMainJs P E s =
     (if \<not> existsSync (dirname E @ [''decomp'', ''build'', ''main.js'']) s
      then Throw (PatchedMainNotFound (dirname E @ [''decomp'', ''build'', ''main.js''])) s
      else copyFileSync (dirname E @ [''decomp'', ''build'', ''main.js''])
                        (extractPath P @ [''build'', ''main.js'']) s)"

definition step6_AddGhosteryDependencies :: "patcher \<Rightarrow> env \<Rightarrow> unit prog" where
  "step6_AddGhosteryDependencies P E s =
     and_then (if existsSync (extractPath P @ [''node_modules'']) s
               then rmSync (extractPath P @ [''node_modules'']) else Return ())
       (\<lambda>s1. if \<not> existsSync (extractPath P @ [''package.json'']) s1 then Return () s1
              else and_then (execSync E (NpmInstallGhostery (extractPath P)))
                            (execSync E (NpmInstallProduction (extractPath P))) s1) s"

definition step7_RepackAsar :: "patcher \<Rightarrow> env \<Rightarrow> unit prog" where
  "step7_RepackAsar P E =
     execSync E (AsarPack (packageManager P) (extractPath P) (newAsarPath P))"

definition cleanup :: "patcher \<Rightarrow> unit prog" where
  "cleanup P s = (if existsSync (tempDir P) s then rmSync (tempDir P) s else Return () s)"

definition step8_CopyBack :: "patcher \<Rightarrow> env \<Rightarrow> unit prog" where
  "step8_CopyBack P E s =
     (if \<not> existsSync (newAsarPath P) s then Throw (RepackedNotFound (newAsarPath P)) s
      else and_then (copyFileSync (newAsarPath P) (originalAsar P)) (cleanup P) s)"

text \<open>The body of the \<open>try\<close> block of \<open>run\<close>, then \<open>run\<close> itself.\<close>

definition pipeline :: "patcher \<Rightarrow> env \<Rightarrow> unit prog" where
  "pipeline P E =
     (if platform P \<noteq> ''win32'' then Return ()
      else and_then (step0_KillDeezer P E)
          (and_then (step0_CheckIfPatched P E)
          (and_then (step1_CreateBackup P E)
          (and_then (step2_CreateTempFolder P E)
          (and_then (step3_ExtractAsar P E)
          (and_then (step4_RenameMainJs P E)
          (and_then (step5_CopyNewMainJs P E)
          (and_then (step6_AddGhosteryDependencies P E)
          (and_then (step7_RepackAsar P E)
                    (step8_CopyBack P E))))))))))"

definition run :: "patcher \<Rightarrow> env \<Rightarrow> unit prog" where
  "run P E = try_catch (pipeline P E) (\<lambda>error. and_then (cleanup P) (process_exit 1))"

text \<open>The command line without flags: \<open>new DeezerPatcher()\<close>, then \<open>run()\<close>; an exception
  that escapes ends the process with status 1.\<close>

definition main :: "env \<Rightarrow> unit prog" where
  "main E = try_catch (then_do (DeezerPatcher E) (\<lambda>P. run P E)) (\<lambda>error. process_exit 1)"

section \<open>The injection wrappers: the ad-blocker wrapper and \<open>patch_files/loadextention.js\<close>\<close>

text \<open>
  What the wrapper can see of a listener: who it is, the \<open>app.on\<close> calls it makes when
  it is called, and whether it then throws. \<open>Orig\<close> listeners come from the original
  main module, \<open>Own\<close> ones are registered by the wrapper itself. The application object
  is the real emitter's list of listeners, the private array \<open>readyListeners\<close>, and
  whether \<open>app.on\<close> is currently the capturing function; \<open>history\<close> records what the
  bootstrap did, in order. \<open>invoke\<close> is a call \<open>readyListeners[i]()\<close>: the listener's
  \<open>app.on\<close> calls go through whatever \<open>app.on\<close> is at that time, and the result says
  whether it threw.
\<close>

datatype lid = Orig nat | Own string

datatype listener = Listener (ident: lid) (calls: "(string \<times> listener) list") (throws: bool)

datatype adblock_result = Ghostery | Manual | NoBlocker

datatype wevent = WhenReady | Settled adblock_result | ExtensionSettled bool
  | Called lid | Caught lid | Restored

record app =
  on_patched :: bool
  emitter :: "(string \<times> listener) list"
  readyListeners :: "listener list"
  history :: "wevent list"

definition originalAppOn :: "string \<Rightarrow> listener \<Rightarrow> app \<Rightarrow> app" where
  "originalAppOn event l a = a\<lparr>emitter := emitter a @ [(event, l)]\<rparr>"

definition app_on_wrapper :: "string \<Rightarrow> listener \<Rightarrow> app \<Rightarrow> app" where
  "app_on_wrapper event l a =
     (if event = ''ready'' then a\<lparr>readyListeners := readyListeners a @ [l]\<rparr>
      else originalAppOn event l a)"

definition app_on :: "string \<Rightarrow> listener \<Rightarrow> app \<Rightarrow> app" where
  "app_on event l a = (if on_patched a then app_on_wrapper event l a else originalAppOn event l a)"

fun weight :: "listener \<Rightarrow> nat" where
  "weight (Listener n cs b) = Suc (sum_list (map (\<lambda>c. weight (snd c)) cs))"

definition invoke :: "listener \<Rightarrow> app \<Rightarrow> bool \<times> app" where
  "invoke l a =
     (throws l, foldl (\<lambda>a' c. app_on (fst c) (snd c) a') (a\<lparr>history := history a @ [Called (ident l)]\<rparr>) (calls l))"

text \<open>
  The replay loop of both files, \<open>for (let i = 0; i < readyListeners.length; i++)\<close> with
  a \<open>try\<close>/\<open>catch\<close> around each call (in \<open>loadextention.js\<close> a \<open>for ... of\<close> over the
  array, which reads the length at every step too). The array can grow while the loop
  runs, since \<open>app.on\<close> is still the capturing function; the loop ends because a
  listener registers finitely many listeners.
\<close>

definition ready_calls :: "listener \<Rightarrow> listener list" where
  "ready_calls l = map snd (filter (\<lambda>c. fst c = ''ready'') (calls l))"

function replay :: "nat \<Rightarrow> app \<Rightarrow> app" where
  "replay i a =
     (if i < length (readyListeners a) then
        (case invoke (readyListeners a ! i) a of
           (threw, a') \<Rightarrow>
             replay (Suc i)
               (if threw then a'\<lparr>history := history a' @ [Caught (ident (readyListeners a ! i))]\<rparr>
                else a'))
      else a)"
  by pat_completeness auto
termination
proof (relation "measure (\<lambda>(i, a). sum_list (map weight (drop i (readyListeners a))))")
  show "wf (measure (\<lambda>(i, a). sum_list (map weight (drop i (readyListeners a)))))"
    by simp
next
  fix i :: nat and a :: app and threw :: bool and a' :: app
  assume i: "i < length (readyListeners a)"
    and p: "(threw, a') = invoke (readyListeners a ! i) a"
  let ?q = "readyListeners a" and ?l = "readyListeners a ! i"
  have reg: "readyListeners (foldl (\<lambda>a' c. app_on (fst c) (snd c) a') b cs) =
      readyListeners b @ (if on_patched b then map snd (filter (\<lambda>c. fst c = ''ready'') cs) else [])"
    for b cs
    by (induction cs arbitrary: b) (auto simp: app_on_def app_on_wrapper_def originalAppOn_def)
  have less: "sum_list (map (\<lambda>c. weight (snd c)) (filter Q cs)) \<le> sum_list (map (\<lambda>c. weight (snd c)) cs)"
    for Q cs
    by (induction cs) auto
  from p have a': "a' = snd (invoke ?l a)" by (metis snd_conv)
  have q': "readyListeners a' = ?q @ (if on_patched a then ready_calls ?l else [])"
    by (simp add: a' invoke_def ready_calls_def reg)
  have w: "sum_list (map weight (ready_calls ?l)) < weight ?l"
    using less [of "\<lambda>c. fst c = ''ready''" "calls ?l"]
    by (cases ?l) (simp add: ready_calls_def comp_def)
  have "sum_list (map weight (drop (Suc i) (readyListeners a')))
        = sum_list (map weight (drop (Suc i) ?q)) +
          sum_list (map weight (if on_patched a then ready_calls ?l else []))"
    using i by (simp add: q')
  also have "\<dots> < weight ?l + sum_list (map weight (drop (Suc i) ?q))"
    using w by (cases ?l) auto
  also have "\<dots> = sum_list (map weight (drop i ?q))"
    using i by (simp add: Cons_nth_drop_Suc [symmetric])
  finally show "((Suc i, if threw then a'\<lparr>history := history a' @ [Caught (ident ?l)]\<rparr> else a'), i, a)
      \<in> measure (\<lambda>(i, a). sum_list (map weight (drop i (readyListeners a))))"
    by simp
qed

declare replay.simps [simp del]

text \<open>
  What the wrapper is given: the \<open>app.on\<close> calls the original main module makes while
  it loads (a throw of \<open>require\<close> is caught and logged), and how the steps of the
  ad-blocker initialisation turn out: whether the two packages load, whether the engine
  is built with or without the cache within the timeout, whether it is a truthy value,
  whether \<open>webRequest.onBeforeRequest\<close> accepts the engine's handler, and whether the
  k-th call of \<open>setupManualAdBlocking\<close> succeeds; for \<open>loadextention.js\<close>, whether the
  extension loads. \<open>app.whenReady()\<close> is taken to resolve.
\<close>

record wrapper_env =
  main_calls :: "(string \<times> listener) list"
  deps_load :: bool
  cache_load :: bool
  nocache_load :: bool
  blocker_truthy :: bool
  webRequest_ok :: bool
  manual_ok :: "nat \<Rightarrow> bool"
  extension_loads :: bool

definition install :: "app \<Rightarrow> app" where
  "install a = a\<lparr>on_patched := True, readyListeners := []\<rparr>"

definition require_original :: "wrapper_env \<Rightarrow> app \<Rightarrow> app" where
  "require_original W a = foldl (\<lambda>a' c. app_on (fst c) (snd c) a') a (main_calls W)"

definition manual_listeners :: "app \<Rightarrow> app" where
  "manual_listeners a =
     app_on ''web-contents-created'' (Listener (Own ''manual web-contents-created'') [] False)
       (app_on ''session-created'' (Listener (Own ''manual session-created'') [] False) a)"

definition ghostery_listeners :: "app \<Rightarrow> app" where
  "ghostery_listeners a =
     app_on ''web-contents-created'' (Listener (Own ''ghostery web-contents-created'') [] False)
       (app_on ''session-created'' (Listener (Own ''ghostery session-created'') [] False) a)"

definition complete_fallback :: "wrapper_env \<Rightarrow> nat \<Rightarrow> app \<Rightarrow> adblock_result \<times> app" where
  "complete_fallback W k a =
     (if manual_ok W k then (Manual, manual_listeners a) else (NoBlocker, a))"

definition initAdblocker :: "wrapper_env \<Rightarrow> app \<Rightarrow> adblock_result \<times> app" where
  "initAdblocker W a =
     (if \<not> deps_load W then complete_fallback W 0 a
      else if \<not> cache_load W \<and> \<not> nocache_load W then complete_fallback W 0 a
      else if \<not> blocker_truthy W then complete_fallback W 0 a
      else if webRequest_ok W then (Ghostery, ghostery_listeners a)
      else if manual_ok W 0 then (Manual, manual_listeners a)
      else complete_fallback W 1 a)"

definition bootstrap :: "wrapper_env \<Rightarrow> app \<Rightarrow> app" where
  "bootstrap W a =
     (case initAdblocker W (a\<lparr>history := history a @ [WhenReady]\<rparr>) of
        (blocker, a2) \<Rightarrow>
          (let a4 = replay 0 (a2\<lparr>history := history a2 @ [Settled blocker]\<rparr>)
           in a4\<lparr>on_patched := False, history := history a4 @ [Restored]\<rparr>))"

definition bootstrap_extension :: "wrapper_env \<Rightarrow> app \<Rightarrow> app" where
  "bootstrap_extension W a =
     (let a4 = replay 0 (a\<lparr>history := history a @ [WhenReady, ExtensionSettled (extension_loads W)]\<rparr>)
      in a4\<lparr>on_patched := False, history := history a4 @ [Restored]\<rparr>)"

definition wrapper :: "wrapper_env \<Rightarrow> app \<Rightarrow> app" where
  "wrapper W a = bootstrap W (require_original W (install a))"

section \<open>What the child processes may be assumed to do\<close>

text \<open>The directory or file a command is told to write: the output directory of an
  extraction, the output file of a pack, the working directory of an install. The
  process commands write nothing.\<close>

fun target :: "command \<Rightarrow> path option" where
  "target (AsarExtract pm src dst) = Some dst"
| "target (AsarPack pm src dst) = Some dst"
| "target (NpmInstallGhostery cwd) = Some cwd"
| "target (NpmInstallProduction cwd) = Some cwd"
| "target _ = None"

fun may_write :: "command \<Rightarrow> path \<Rightarrow> bool" where
  "may_write c p = (case target c of None \<Rightarrow> False | Some d \<Rightarrow> prefix d p)"

text \<open>\<open>tool_keeps E p\<close>: no child process changes what is at \<open>p\<close>, unless \<open>p\<close> is, or lies
  below, what the command was told to write.\<close>

definition tool_keeps :: "env \<Rightarrow> path \<Rightarrow> bool" where
  "tool_keeps E p = (\<forall>n c f t. \<not> may_write c p \<longrightarrow> fst (snd (tool E n c f t)) p = f p)"

section \<open>Vocabulary of the statements\<close>

text \<open>\<open>preserves I m\<close>: whatever way \<open>m\<close> ends (return, throw or exit), it leaves a state
  that satisfies \<open>I\<close> when it started in one. \<open>frame p v\<close>: what is at path \<open>p\<close> is \<open>v\<close>
  (a file with its text and modification time, a directory, or nothing).\<close>

definition preserves :: "(state \<Rightarrow> bool) \<Rightarrow> 'a prog \<Rightarrow> bool" where
  "preserves I m = (\<forall>s. I s \<longrightarrow> I (state_of (m s)))"

definition frame :: "path \<Rightarrow> node option \<Rightarrow> state \<Rightarrow> bool" where
  "frame p v s = (files s p = v)"

text \<open>The pipeline up to, and without, the copy over the live archive: steps 0 to 7 and
  the existence check that opens step 8. \<open>pipeline_split\<close> below shows that the \<open>try\<close>
  block of \<open>run\<close> is this, then the copy, then the cleanup.\<close>

definition before_copy :: "patcher \<Rightarrow> env \<Rightarrow> unit prog" where
  "before_copy P E =
     and_then (step0_KillDeezer P E)
    (and_then (step0_CheckIfPatched P E)
    (and_then (step1_CreateBackup P E)
    (and_then (step2_CreateTempFolder P E)
    (and_then (step3_ExtractAsar P E)
    (and_then (step4_RenameMainJs P E)
    (and_then (step5_CopyNewMainJs P E)
    (and_then (step6_AddGhosteryDependencies P E)
    (and_then (step7_RepackAsar P E)
       (\<lambda>s. if \<not> existsSync (newAsarPath P) s then Throw (RepackedNotFound (newAsarPath P)) s
            else Return () s)))))))))"

definition flag_is :: "bool \<Rightarrow> state \<Rightarrow> bool" where
  "flag_is b s = (useExistingBackup s = b)"

definition emitted_only :: "event list \<Rightarrow> event set \<Rightarrow> state \<Rightarrow> bool" where
  "emitted_only tr A s = (\<exists>evs. trace s = tr @ evs \<and> set evs \<subseteq> A)"

text \<open>\<open>called h\<close> and \<open>caught h\<close>: the listeners called, and the listeners whose exception
  was caught, in a history, in order.\<close>

fun called :: "wevent list \<Rightarrow> lid list" where
  "called [] = []"
| "called (Called n # h) = n # called h"
| "called (e # h) = called h"

fun caught :: "wevent list \<Rightarrow> lid list" where
  "caught [] = []"
| "caught (Caught n # h) = n # caught h"
| "caught (e # h) = caught h"

section \<open>A sample installation\<close>

text \<open>A small archive tool: an archive is a file whose text is \<open>ASAR\<close> followed by its
  entry script; extracting any other file fails. Deezer is not running, and every
  other command succeeds and writes nothing.\<close>

definition sample_tool :: "nat \<Rightarrow> command \<Rightarrow> fs \<Rightarrow> nat \<Rightarrow> bool \<times> fs \<times> nat" where
  "sample_tool n c f t =
     (case c of
        TaskList \<Rightarrow> (False, f, t)
      | AsarExtract pm src dst \<Rightarrow>
          (case f src of
             Some (File scr m) \<Rightarrow>
               if prefix ''ASAR'' scr
               then (True, f(dst \<mapsto> Dir, dst @ [''build''] \<mapsto> Dir,
                             dst @ [''build'', ''main.js''] \<mapsto> File (drop 4 scr) t), Suc t)
               else (False, f, t)
           | _ \<Rightarrow> (False, f, t))
      | AsarPack pm src dst \<Rightarrow>
          (case f (src @ [''build'', ''main.js'']) of
             Some (File scr m) \<Rightarrow> (True, f(dst \<mapsto> File (''ASAR'' @ scr) t), Suc t)
           | _ \<Rightarrow> (False, f, t))
      | _ \<Rightarrow> (True, f, t))"

definition sample_env :: env where
  "sample_env =
     \<lparr>os_platform = ''win32'', os_tmpdir = [''C:'', ''Temp''], os_homedir = [''C:'', ''Users'', ''u''],
      dirname = [''C:'', ''DeDeezer''], npm_execpath = Some ''npm-cli.js'', answer = ''y'',
      tool = sample_tool\<rparr>"

definition sample_patcher :: patcher where
  "sample_patcher =
     \<lparr>platform = ''win32'', tempDir = [''C:'', ''Temp'', ''deezer-patch-5''],
      backupDir = [''C:'', ''DeDeezer'', ''backups''], packageManager = ''npm'',
      paths = \<lparr>deezerPath = [''C:'', ''Users'', ''u'', ''AppData'', ''Local'', ''Programs'', ''deezer-desktop''],
               asarFile = ''app.asar'', executable = ''Deezer.exe''\<rparr>\<rparr>"

definition sample_live :: path where
  "sample_live = [''C:'', ''Users'', ''u'', ''AppData'', ''Local'', ''Programs'', ''deezer-desktop'',
                  ''resources'', ''app.asar'']"

definition sample_backup :: path where
  "sample_backup = [''C:'', ''Users'', ''u'', ''AppData'', ''Local'', ''Programs'', ''deezer-desktop'',
                    ''resources'', ''app.bak.asar'']"

definition sample_wrapper :: path where
  "sample_wrapper = [''C:'', ''DeDeezer'', ''decomp'', ''build'', ''main.js'']"

text \<open>An installation whose live archive has the text \<open>scr\<close>, with no backup: the live
  archive, the wrapper script of the repository, and the directories above them and
  above the temporary directory.\<close>

definition installed :: "string \<Rightarrow> fs" where
  "installed scr p =
     (if p = sample_live then Some (File scr 1)
      else if p = sample_wrapper then Some (File ''console.log([inject])'' 2)
      else if strict_prefix p sample_live \<or> strict_prefix p sample_wrapper \<or> prefix p [''C:'', ''Temp'']
        then Some Dir
      else None)"

definition at_start :: "fs \<Rightarrow> state" where
  "at_start f = \<lparr>files = f, now = 5, trace = [], useExistingBackup = False\<rparr>"

text \<open>A patched installation with a backup, and a user who answers \<open>y\<close>.\<close>

definition repatch_start :: state where
  "repatch_start =
     at_start ((installed ''ASARconsole.log([inject])'')(sample_backup \<mapsto> File ''ASARoriginal'' 0))"

text \<open>A patched installation without a backup.\<close>

definition patched_start :: state where
  "patched_start = at_start (installed ''ASARconsole.log([inject])'')"

text \<open>
  The same installation on a machine where \<open>pnpm\<close> started the script and \<open>npm\<close> is the
  stock one: \<open>npm\<close> has no \<open>dlx\<close> command, so \<open>npm dlx @electron/asar ...\<close> exits with a
  status other than 0 and writes nothing, while \<open>pnpm dlx\<close> (and \<open>yarn dlx\<close>) run the
  archive tool.
\<close>

definition stock_tool :: "nat \<Rightarrow> command \<Rightarrow> fs \<Rightarrow> nat \<Rightarrow> bool \<times> fs \<times> nat" where
  "stock_tool n c f t =
     (case c of
        AsarExtract pm src dst \<Rightarrow> if pm = ''npm'' then (False, f, t) else sample_tool n c f t
      | AsarPack pm src dst \<Rightarrow> if pm = ''npm'' then (False, f, t) else sample_tool n c f t
      | _ \<Rightarrow> sample_tool n c f t)"

definition stock_env :: env where
  "stock_env = sample_env\<lparr>npm_execpath := Some ''pnpm.cjs'', tool := stock_tool\<rparr>"

definition stock_patcher :: patcher where
  "stock_patcher = sample_patcher\<lparr>packageManager := ''pnpm''\<rparr>"

text \<open>A main module that registers a throwing \<open>ready\<close> listener, a listener of another
  event, and a \<open>ready\<close> listener that registers one more when it runs; the ad-blocking
  packages cannot be loaded, the manual rules can be set.\<close>

definition sample_wrapper_env :: wrapper_env where
  "sample_wrapper_env =
     \<lparr>main_calls = [(''ready'', Listener (Orig 1) [] True),
                    (''window-all-closed'', Listener (Orig 2) [] False),
                    (''ready'', Listener (Orig 3) [(''ready'', Listener (Orig 4) [] False)] False)],
      deps_load = False, cache_load = False, nocache_load = False, blocker_truthy = False,
      webRequest_ok = False, manual_ok = (\<lambda>k. True), extension_loads = False\<rparr>"

definition fresh_app :: app where
  "fresh_app = \<lparr>on_patched = False, emitter = [], readyListeners = [], history = []\<rparr>"

section \<open>Basic facts\<close>

lemma then_do_Return [simp]: "then_do (Return a) f s = f a s"
  by (simp add: then_do_def)

lemma and_then_Return [simp]: "and_then (Return ()) k s = k s"
  by (simp add: and_then_def)

lemma thrown_not_returned: "thrown r = Some e \<Longrightarrow> returned r = None"
  by (cases r) simp_all

lemma thrown_not_exited: "thrown r = Some e \<Longrightarrow> exited r = None"
  by (cases r) simp_all

lemma returned_not_exited: "returned r = Some a \<Longrightarrow> exited r = None"
  by (cases r) simp_all

lemma returned_SomeD: "returned r = Some a \<Longrightarrow> r = Return a (state_of r)"
  by (cases r) simp_all

lemma mkdirSync_not_Exit [simp]: "mkdirSync p s \<noteq> Exit c s'"
  by (simp add: mkdirSync_def)

lemma execSync_not_Exit [simp]: "execSync E cmd s \<noteq> Exit c s'"
  by (simp add: execSync_def split: prod.splits)

lemmas sample_defs = sample_env_def sample_patcher_def sample_live_def sample_backup_def
  sample_wrapper_def installed_def at_start_def sample_tool_def

lemmas prim_defs = mkdirSync_def rmSync_def readFileSync_def copyFileSync_def renameSync_def
  execSync_def existsSync_def emit_def sleep_def process_exit_def string_of_nat.simps
  str_includes_def sublist_code

section \<open>The patch detector\<close>

lemma checkPatchSignature_returns:
  "\<exists>b s'. checkPatchSignature P E asarPath s = Return b s'"
  by (auto simp: checkPatchSignature_def try_catch_def and_then_def then_do_def rmSync_def
      readFileSync_def Let_def split: result.splits option.splits node.splits)

text \<open>
  What the detector does once its extraction has succeeded: if the extracted
  \<open>build/main.js\<close> is a file, it returns whether its text contains \<open>DZ_DEVTOOLS\<close> or
  \<open>[inject]\<close>; if \<open>build/main.js\<close> is absent from the extracted tree, it returns false.
\<close>

lemma checkPatchSignature_after_extraction:
  assumes "mkdirSync (tempCheck E (now s)) s = Return () s1"
      and "execSync E (AsarExtract ''npm'' asarPath (tempCheck E (now s))) s1 = Return () s2"
  shows "(\<forall>c m. files s2 (tempCheck E (now s) @ [''build'', ''main.js'']) = Some (File c m) \<longrightarrow>
            checkPatchSignature P E asarPath s =
              Return (str_includes c ''DZ_DEVTOOLS'' \<or> str_includes c ''[inject]'')
                     (state_of (rmSync (tempCheck E (now s)) s2)))
       \<and> (files s2 (tempCheck E (now s) @ [''build'', ''main.js'']) = None \<longrightarrow>
            checkPatchSignature P E asarPath s =
              Return False (state_of (rmSync (tempCheck E (now s)) s2)))"
  using assms
  by (auto simp: checkPatchSignature_def try_catch_def and_then_def then_do_def rmSync_def
      readFileSync_def existsSync_def Let_def)

lemma checkPatchSignature_after_extraction_example:
  "returned (checkPatchSignature sample_patcher sample_env sample_live
              (at_start (installed ''ASARconsole.log([inject])''))) = Some True
   \<and> returned (checkPatchSignature sample_patcher sample_env sample_live
              (at_start (installed ''ASARconsole.log(1)''))) = Some False"
proof -
  let ?tc = "tempCheck sample_env 5"
  have a: "mkdirSync (tempCheck sample_env (now (at_start (installed scr)))) (at_start (installed scr)) =
        Return () (state_of (mkdirSync ?tc (at_start (installed scr))))" for scr
    by (simp add: sample_defs prim_defs tempCheck_def)
  have b: "execSync sample_env
             (AsarExtract ''npm'' sample_live (tempCheck sample_env (now (at_start (installed (''ASAR'' @ scr))))))
             (state_of (mkdirSync ?tc (at_start (installed (''ASAR'' @ scr))))) =
           Return () (state_of (execSync sample_env (AsarExtract ''npm'' sample_live ?tc)
             (state_of (mkdirSync ?tc (at_start (installed (''ASAR'' @ scr)))))))" for scr
    by (simp add: sample_defs prim_defs tempCheck_def)
  have c: "files (state_of (execSync sample_env (AsarExtract ''npm'' sample_live ?tc)
             (state_of (mkdirSync ?tc (at_start (installed (''ASAR'' @ scr)))))))
             (tempCheck sample_env (now (at_start (installed (''ASAR'' @ scr)))) @ [''build'', ''main.js''])
           = Some (File scr 5)" for scr
    by (simp add: sample_defs prim_defs tempCheck_def)
  show ?thesis
    using checkPatchSignature_after_extraction [OF a b, of "''console.log([inject])''" sample_patcher]
      checkPatchSignature_after_extraction [OF a b, of "''console.log(1)''" sample_patcher]
      c [of "''console.log([inject])''"] c [of "''console.log(1)''"]
    by (simp add: str_includes_def sublist_code)
qed

text \<open>
  But the extraction is the command \<open>npm dlx @electron/asar extract\<close>, with \<open>npm\<close> written
  out, where steps 3 and 7 use the package manager that was detected. Where that
  command fails, the detector answers false on every archive.
\<close>

lemma checkPatchSignature_False_without_dlx:
  assumes "\<And>n src dst f t. \<not> fst (tool E n (AsarExtract ''npm'' src dst) f t)"
  shows "returned (checkPatchSignature P E a s) = Some False"
proof -
  have x: "execSync E (AsarExtract ''npm'' a tc) s1 \<noteq> Return u s2" for tc s1 u s2
    using assms [of "length (trace s1)" a tc "files s1" "now s1"]
    by (auto simp: execSync_def split: prod.splits)
  show ?thesis
    by (auto simp: checkPatchSignature_def try_catch_def and_then_def then_do_def Let_def x
        split: result.splits)
qed

text \<open>
  C2. The detector misses a patched archive. On the installation with the stock \<open>npm\<close>,
  the live archive is patched: extracted with \<open>pnpm dlx\<close>, as step 3 would, its
  \<open>build/main.js\<close> contains the marker \<open>[inject]\<close>. The detector's own command
  \<open>npm dlx ...\<close> fails, \<open>execSync\<close> throws, and \<open>checkPatchSignature\<close> returns false.
\<close>

theorem checkPatchSignature_misses_patch:
  "files patched_start sample_live = Some (File ''ASARconsole.log([inject])'' 1)
   \<and> files (state_of (execSync stock_env (AsarExtract ''pnpm'' sample_live (tempCheck stock_env 5))
        patched_start)) (tempCheck stock_env 5 @ [''build'', ''main.js''])
       = Some (File ''console.log([inject])'' 5)
   \<and> str_includes ''console.log([inject])'' ''[inject]''
   \<and> thrown (execSync stock_env (AsarExtract ''npm'' sample_live (tempCheck stock_env 5))
        (state_of (mkdirSync (tempCheck stock_env 5) patched_start)))
       = Some (CommandFailed (AsarExtract ''npm'' sample_live (tempCheck stock_env 5)))
   \<and> returned (checkPatchSignature stock_patcher stock_env sample_live patched_start) = Some False"
  by (simp add: checkPatchSignature_def try_catch_def and_then_def then_do_def sample_defs
      prim_defs tempCheck_def Let_def patched_start_def stock_env_def stock_tool_def
      stock_patcher_def)

text \<open>
  C3. The throwaway directory survives a failed extraction: on an installation whose
  \<open>app.asar\<close> is not an archive the extraction exits with a status other than 0,
  \<open>execSync\<close> throws, the \<open>catch\<close> block returns false, and the directory
  \<open>deezer-check-5\<close>, which did not exist before the call, is still there after it.
\<close>

theorem checkPatchSignature_leaves_tempCheck:
  "returned (checkPatchSignature sample_patcher sample_env sample_live (at_start (installed ''garbage'')))
     = Some False
   \<and> files (state_of (checkPatchSignature sample_patcher sample_env sample_live
        (at_start (installed ''garbage'')))) (tempCheck sample_env 5) = Some Dir
   \<and> files (at_start (installed ''garbage'')) (tempCheck sample_env 5) = None"
  by (simp add: checkPatchSignature_def try_catch_def and_then_def then_do_def sample_defs
      prim_defs tempCheck_def Let_def)

section \<open>The steps of the pipeline\<close>

text \<open>
  C9. When the extracted tree has no \<open>package.json\<close>, the dependency step returns
  normally; all it does is remove \<open>node_modules\<close> if that exists (no child process is
  started), and the pipeline goes on with the repack step.
\<close>

theorem step6_without_package_json:
  assumes "\<not> existsSync (extractPath P @ [''package.json'']) s"
  shows "step6_AddGhosteryDependencies P E s =
           Return () (if existsSync (extractPath P @ [''node_modules'']) s
                      then state_of (rmSync (extractPath P @ [''node_modules'']) s) else s)
       \<and> trace (state_of (step6_AddGhosteryDependencies P E s)) =
           trace s @ (if existsSync (extractPath P @ [''node_modules'']) s
                      then [Rm (extractPath P @ [''node_modules''])] else [])
       \<and> and_then (step6_AddGhosteryDependencies P E)
            (and_then (step7_RepackAsar P E) (step8_CopyBack P E)) s =
          and_then (step7_RepackAsar P E) (step8_CopyBack P E)
            (state_of (step6_AddGhosteryDependencies P E s))"
  using assms
  by (auto simp: step6_AddGhosteryDependencies_def and_then_def then_do_def rmSync_def
      existsSync_def emit_def)

theorem step6_without_package_json_witness:
  "\<not> existsSync (extractPath sample_patcher @ [''package.json''])
       (at_start ((installed ''ASARx'')(extractPath sample_patcher @ [''node_modules''] \<mapsto> Dir)))
   \<and> trace (state_of (step6_AddGhosteryDependencies sample_patcher sample_env
        (at_start ((installed ''ASARx'')(extractPath sample_patcher @ [''node_modules''] \<mapsto> Dir)))))
      = [Rm [''C:'', ''Temp'', ''deezer-patch-5'', ''extracted'', ''node_modules'']]"
  using step6_without_package_json [of sample_patcher
      "at_start ((installed ''ASARx'')(extractPath sample_patcher @ [''node_modules''] \<mapsto> Dir))" sample_env]
  by (simp add: existsSync_def extractPath_def sample_patcher_def at_start_def installed_def
      sample_live_def sample_wrapper_def rmSync_def emit_def)

section \<open>Frame properties of the pipeline\<close>

lemma preservesD: "preserves I m \<Longrightarrow> I s \<Longrightarrow> I (state_of (m s))"
  by (simp add: preserves_def)

lemma pres_Return [simp]: "preserves I (Return a)"
  by (simp add: preserves_def)

lemma pres_Throw [simp]: "preserves I (Throw e)"
  by (simp add: preserves_def)

lemma pres_process_exit [simp]: "preserves I (process_exit c)"
  by (simp add: preserves_def process_exit_def)

lemma pres_then_do: "preserves I m \<Longrightarrow> (\<And>a. preserves I (f a)) \<Longrightarrow> preserves I (then_do m f)"
  unfolding preserves_def then_do_def
  by (auto split: result.splits)

lemma pres_and_then: "preserves I m \<Longrightarrow> preserves I k \<Longrightarrow> preserves I (and_then m k)"
  by (simp add: and_then_def pres_then_do)

lemma pres_try_catch: "preserves I m \<Longrightarrow> (\<And>e. preserves I (h e)) \<Longrightarrow> preserves I (try_catch m h)"
  unfolding preserves_def try_catch_def
  by (auto split: result.splits)

lemma frame_mkdirSync: "v \<noteq> None \<or> \<not> prefix p q \<Longrightarrow> preserves (frame p v) (mkdirSync q)"
  by (auto simp: preserves_def frame_def mkdirSync_def emit_def)

lemma frame_rmSync: "\<not> prefix q p \<Longrightarrow> preserves (frame p v) (rmSync q)"
  by (auto simp: preserves_def frame_def rmSync_def emit_def)

lemma frame_readFileSync: "preserves (frame p v) (readFileSync q)"
  by (auto simp: preserves_def frame_def readFileSync_def split: option.splits node.splits)

lemma frame_copyFileSync: "b \<noteq> p \<Longrightarrow> preserves (frame p v) (copyFileSync a b)"
  by (auto simp: preserves_def frame_def copyFileSync_def emit_def split: option.splits node.splits)

lemma frame_renameSync: "\<not> prefix a p \<Longrightarrow> \<not> prefix b p \<Longrightarrow> preserves (frame p v) (renameSync a b)"
  by (auto simp: preserves_def frame_def renameSync_def emit_def)

lemma frame_execSync: "tool_keeps E p \<Longrightarrow> \<not> may_write c p \<Longrightarrow> preserves (frame p v) (execSync E c)"
  by (auto simp: preserves_def frame_def execSync_def emit_def tool_keeps_def split: prod.splits)
     (metis fst_conv snd_conv)+

lemma frame_sleep: "preserves (frame p v) (sleep n)"
  by (auto simp: preserves_def frame_def sleep_def)

lemma pres_cond: "preserves I m \<Longrightarrow> preserves I k \<Longrightarrow> preserves I (\<lambda>s. if c s then m s else k s)"
  by (simp add: preserves_def)

lemma pres_step0_KillDeezer:
  assumes "preserves I (execSync E TaskList)" and "\<And>b. preserves I (execSync E (TaskKill b))"
    and "preserves I (sleep 2000)"
  shows "preserves I (step0_KillDeezer P E)"
  unfolding step0_KillDeezer_def
  by (intro impI conjI pres_try_catch pres_and_then pres_Return assms | simp)+

lemma pres_checkPatchSignature:
  assumes "\<And>t. preserves I (mkdirSync (tempCheck E t))"
    and "\<And>t. preserves I (execSync E (AsarExtract ''npm'' a (tempCheck E t)))"
    and "\<And>t. preserves I (rmSync (tempCheck E t))"
    and "\<And>q. preserves I (readFileSync q)"
  shows "preserves I (checkPatchSignature P E a)"
proof -
  have body: "preserves I (and_then (mkdirSync (tempCheck E t))
        (and_then (execSync E (AsarExtract ''npm'' a (tempCheck E t)))
        (\<lambda>s1. if existsSync (tempCheck E t @ [''build'', ''main.js'']) s1 then
                 then_do (readFileSync (tempCheck E t @ [''build'', ''main.js''])) (\<lambda>content.
                 and_then (rmSync (tempCheck E t))
                   (Return (str_includes content ''DZ_DEVTOOLS'' \<or> str_includes content ''[inject]''))) s1
               else and_then (rmSync (tempCheck E t)) (Return False) s1)))" for t
    by (intro pres_and_then pres_cond pres_then_do pres_Return assms)
  show ?thesis
    unfolding preserves_def
  proof (intro allI impI)
    fix s assume "I s"
    from preservesD [OF body this, of "now s"]
    show "I (state_of (checkPatchSignature P E a s))"
      by (auto simp: checkPatchSignature_def try_catch_def Let_def split: result.splits)
  qed
qed

lemma step0_KillDeezer_returns: "\<exists>s'. step0_KillDeezer P E s = Return () s'"
  by (auto simp: step0_KillDeezer_def try_catch_def and_then_def then_do_def sleep_def
      split: result.splits)

lemma not_prefix_append: "\<not> prefix a p \<Longrightarrow> \<not> prefix (a @ b) p"
  using append_prefixD by blast

lemma frame_step0_KillDeezer:
  "tool_keeps E p \<Longrightarrow> preserves (frame p v) (step0_KillDeezer P E)"
  by (intro pres_step0_KillDeezer frame_execSync frame_sleep) simp_all

lemma frame_checkPatchSignature:
  assumes "tool_keeps E p" and "\<And>t. \<not> prefix (tempCheck E t) p" and "v \<noteq> None"
  shows "preserves (frame p v) (checkPatchSignature P E a)"
  using assms
  by (intro pres_checkPatchSignature frame_execSync frame_mkdirSync frame_rmSync frame_readFileSync)
     simp_all

lemma frame_askUserConfirmation: "preserves (frame p v) (askUserConfirmation E q)"
  by (simp add: preserves_def frame_def askUserConfirmation_def emit_def)

lemma frame_step0_CheckIfPatched:
  assumes "tool_keeps E p" and "\<And>t. \<not> prefix (tempCheck E t) p"
    and "v \<noteq> None \<or> p = originalAsar P"
  shows "preserves (frame p v) (step0_CheckIfPatched P E)"
  unfolding preserves_def
proof (intro allI impI)
  fix s assume I: "frame p v s"
  show "frame p v (state_of (step0_CheckIfPatched P E s))"
  proof (cases "existsSync (originalAsar P) s")
    case False
    then show ?thesis using I by (simp add: step0_CheckIfPatched_def)
  next
    case True
    with I assms(3) have v: "v \<noteq> None" by (auto simp: frame_def existsSync_def)
    have "preserves (frame p v) (then_do (checkPatchSignature P E (originalAsar P)) (\<lambda>isPatched s1.
        if isPatched then
          (if existsSync (backupFile P) s1 then
             then_do (askUserConfirmation E
               ''Deezer is already patched. Do you want to repatch using the backup file? (y/n): '')
               (\<lambda>shouldRepatch s2.
                  if shouldRepatch then Return () (s2\<lparr>useExistingBackup := True\<rparr>)
                  else process_exit 0 s2) s1
           else process_exit 1 s1)
        else Return () s1))"
      by (intro pres_then_do frame_checkPatchSignature assms v)
         (auto simp: preserves_def frame_def then_do_def askUserConfirmation_def emit_def process_exit_def)
    from preservesD [OF this I] True show ?thesis
      by (simp add: step0_CheckIfPatched_def)
  qed
qed

lemma frame_app: "preserves (frame p v) m \<Longrightarrow> files s p = v \<Longrightarrow> files (state_of (m s)) p = v"
  by (simp add: preserves_def frame_def)

lemma frame_step1_CreateBackup:
  assumes "p \<noteq> backupFile P \<or> v \<noteq> None"
  shows "preserves (frame p v) (step1_CreateBackup P E)"
  unfolding preserves_def
proof (intro allI impI)
  fix s assume I: "frame p v s"
  show "frame p v (state_of (step1_CreateBackup P E s))"
  proof (cases "p = backupFile P")
    case True
    with assms I have "existsSync (backupFile P) s" by (auto simp: frame_def existsSync_def)
    then show ?thesis using I by (simp add: step1_CreateBackup_def)
  next
    case False
    then have "preserves (frame p v) (copyFileSync (originalAsar P) (backupFile P))"
      by (intro frame_copyFileSync) simp
    from preservesD [OF this I] I show ?thesis by (simp add: step1_CreateBackup_def)
  qed
qed

lemma frame_step2_CreateTempFolder:
  assumes "\<not> prefix (tempDir P) p" and "v \<noteq> None"
  shows "preserves (frame p v) (step2_CreateTempFolder P E)"
proof -
  have "preserves (frame p v) (and_then m (mkdirSync (tempDir P)))"
    if "preserves (frame p v) m" for m :: "unit prog"
    using that assms by (intro pres_and_then frame_mkdirSync) simp_all
  from this [OF frame_rmSync [OF assms(1)]] this [OF pres_Return]
  show ?thesis by (simp add: preserves_def step2_CreateTempFolder_def)
qed

lemma frame_step3_ExtractAsar:
  assumes "tool_keeps E p" and "\<not> prefix (tempDir P) p"
  shows "preserves (frame p v) (step3_ExtractAsar P E)"
proof -
  have "preserves (frame p v) (execSync E (AsarExtract (packageManager P) src (extractPath P)))" for src
    using assms by (intro frame_execSync) (simp_all add: extractPath_def not_prefix_append)
  then show ?thesis by (simp add: preserves_def step3_ExtractAsar_def)
qed

lemma frame_step4_RenameMainJs:
  assumes "\<not> prefix (tempDir P) p"
  shows "preserves (frame p v) (step4_RenameMainJs P E)"
proof -
  have "preserves (frame p v) (renameSync (extractPath P @ [''build'', ''main.js''])
          (extractPath P @ [''build'', ''main.original.js'']))"
    using assms by (intro frame_renameSync) (simp_all add: extractPath_def not_prefix_append)
  then show ?thesis by (simp add: preserves_def step4_RenameMainJs_def)
qed

lemma frame_step5_CopyNewMainJs:
  assumes "\<not> prefix (tempDir P) p"
  shows "preserves (frame p v) (step5_CopyNewMainJs P E)"
proof -
  have "extractPath P @ [''build'', ''main.js''] \<noteq> p"
    using assms by (auto simp: extractPath_def)
  then have "preserves (frame p v) (copyFileSync src (extractPath P @ [''build'', ''main.js'']))" for src
    by (intro frame_copyFileSync)
  then show ?thesis by (simp add: preserves_def step5_CopyNewMainJs_def)
qed

lemma frame_step6_AddGhosteryDependencies:
  assumes "tool_keeps E p" and "\<not> prefix (tempDir P) p"
  shows "preserves (frame p v) (step6_AddGhosteryDependencies P E)"
proof -
  have rest: "preserves (frame p v)
      (\<lambda>s1. if \<not> existsSync (extractPath P @ [''package.json'']) s1 then Return () s1
             else and_then (execSync E (NpmInstallGhostery (extractPath P)))
                           (execSync E (NpmInstallProduction (extractPath P))) s1)"
    using assms
    by (intro pres_cond pres_and_then pres_Return frame_execSync)
       (simp_all add: extractPath_def not_prefix_append)
  have "preserves (frame p v) (and_then m
      (\<lambda>s1. if \<not> existsSync (extractPath P @ [''package.json'']) s1 then Return () s1
             else and_then (execSync E (NpmInstallGhostery (extractPath P)))
                           (execSync E (NpmInstallProduction (extractPath P))) s1))"
    if "preserves (frame p v) m" for m :: "unit prog"
    using that rest by (intro pres_and_then)
  from this [OF frame_rmSync] this [OF pres_Return] assms(2)
  show ?thesis
    by (simp add: preserves_def step6_AddGhosteryDependencies_def extractPath_def not_prefix_append)
qed

lemma frame_step7_RepackAsar:
  "tool_keeps E p \<Longrightarrow> \<not> prefix (tempDir P) p \<Longrightarrow> preserves (frame p v) (step7_RepackAsar P E)"
  unfolding step7_RepackAsar_def
  by (intro frame_execSync) (simp_all add: newAsarPath_def not_prefix_append)

lemma frame_cleanup:
  "\<not> prefix (tempDir P) p \<Longrightarrow> preserves (frame p v) (cleanup P)"
  using preservesD [OF frame_rmSync, of "tempDir P" p v]
  by (simp add: preserves_def cleanup_def)

lemma frame_step8_CopyBack:
  assumes "p \<noteq> originalAsar P" and "\<not> prefix (tempDir P) p"
  shows "preserves (frame p v) (step8_CopyBack P E)"
proof -
  have "preserves (frame p v) (and_then (copyFileSync (newAsarPath P) (originalAsar P)) (cleanup P))"
    using assms by (intro pres_and_then frame_copyFileSync frame_cleanup) simp_all
  then show ?thesis by (simp add: preserves_def step8_CopyBack_def)
qed

lemma and_then_assoc: "and_then (and_then a b) c = and_then a (and_then b c)"
  by (auto simp: and_then_def then_do_def fun_eq_iff split: result.splits)

lemma step8_CopyBack_split:
  "step8_CopyBack P E =
     and_then (\<lambda>s. if \<not> existsSync (newAsarPath P) s then Throw (RepackedNotFound (newAsarPath P)) s
                    else Return () s)
       (and_then (copyFileSync (newAsarPath P) (originalAsar P)) (cleanup P))"
  by (auto simp: step8_CopyBack_def and_then_def then_do_def fun_eq_iff)

lemma pipeline_split:
  "platform P = ''win32'' \<Longrightarrow>
   pipeline P E =
     and_then (before_copy P E) (and_then (copyFileSync (newAsarPath P) (originalAsar P)) (cleanup P))"
  by (simp add: pipeline_def before_copy_def and_then_assoc step8_CopyBack_split)

lemma DeezerPatcher_fields:
  assumes "DeezerPatcher E s0 = Return P s0'"
  shows "tempDir P = os_tmpdir E @ [''deezer-patch-'' @ string_of_nat (now s0)]"
    and "asarFile (paths P) = ''app.asar''"
    and "platform P = os_platform E"
  using assms
  by (auto simp: DeezerPatcher_def getPlatformPaths_def then_do_def Let_def
      split: result.splits if_splits)

lemma frame_step0_CheckIfPatched_missing:
  "preserves (frame (originalAsar P) None) (and_then (step0_CheckIfPatched P E) k)"
  by (simp add: preserves_def frame_def and_then_def then_do_def step0_CheckIfPatched_def
      existsSync_def)

lemma frame_before_copy:
  assumes "tool_keeps E p" and "\<not> prefix (tempDir P) p" and "\<And>t. \<not> prefix (tempCheck E t) p"
    and "p \<noteq> backupFile P \<or> v \<noteq> None" and "v \<noteq> None \<or> p = originalAsar P"
  shows "preserves (frame p v) (before_copy P E)"
proof (cases "v = None")
  case True
  with assms(5) have p: "p = originalAsar P" by simp
  show ?thesis
    unfolding before_copy_def True p
    using assms(1) [unfolded p]
    by (intro pres_and_then frame_step0_KillDeezer frame_step0_CheckIfPatched_missing)
next
  case False
  show ?thesis
    unfolding before_copy_def
    by (intro pres_and_then pres_cond pres_Throw pres_Return frame_step0_KillDeezer
        frame_step0_CheckIfPatched frame_step1_CreateBackup frame_step2_CreateTempFolder
        frame_step3_ExtractAsar frame_step4_RenameMainJs frame_step5_CopyNewMainJs
        frame_step6_AddGhosteryDependencies frame_step7_RepackAsar assms False disjI1)
qed

lemma run_when_not_returned:
  assumes "platform P = ''win32''" and "returned (before_copy P E s) = None"
  shows "state_of (run P E s) = state_of (before_copy P E s)
       \<or> state_of (run P E s) = state_of (cleanup P (state_of (before_copy P E s)))"
  using assms
  by (cases "before_copy P E s")
     (auto simp: run_def pipeline_split try_catch_def and_then_def then_do_def process_exit_def
      split: result.splits)

text \<open>
  C1. For a patcher built by the constructor, when no child process writes outside what
  it was told to write and the live archive does not lie in the temporary directory:
  whatever way the part of the pipeline before the copy of step 8 ends, the live archive
  is as it was (same text, same modification time, or still absent); and when that part
  does not return (a step threw, or the process exited), the live archive is as it was
  when \<open>run\<close> ends.
\<close>

theorem live_archive_untouched_before_copy:
  assumes "DeezerPatcher E s0 = Return P s0'"
    and "tool_keeps E (originalAsar P)"
    and "\<not> prefix (os_tmpdir E) (originalAsar P)"
  shows "files (state_of (before_copy P E s)) (originalAsar P) = files s (originalAsar P)
       \<and> (returned (before_copy P E s) = None \<longrightarrow>
            files (state_of (run P E s)) (originalAsar P) = files s (originalAsar P))"
proof -
  let ?p = "originalAsar P"
  have td: "\<not> prefix (tempDir P) ?p"
    using assms(3) by (simp add: DeezerPatcher_fields(1) [OF assms(1)] not_prefix_append)
  have tc: "\<not> prefix (tempCheck E t) ?p" for t
    using assms(3) by (simp add: tempCheck_def not_prefix_append)
  have nb: "?p \<noteq> backupFile P"
    by (simp add: originalAsar_def backupFile_def DeezerPatcher_fields(2) [OF assms(1)])
  have "preserves (frame ?p (files s ?p)) (before_copy P E)"
    using assms(2) td tc nb by (intro frame_before_copy) simp_all
  then have a: "files (state_of (before_copy P E s)) ?p = files s ?p"
    by (rule frame_app) simp
  have b: "files (state_of (run P E s)) ?p = files s ?p" if "returned (before_copy P E s) = None"
  proof (cases "platform P = ''win32''")
    case True
    from run_when_not_returned [OF True that] a frame_app [OF frame_cleanup [OF td], of "state_of (before_copy P E s)"]
    show ?thesis by auto
  next
    case False
    then show ?thesis by (simp add: run_def pipeline_def try_catch_def)
  qed
  from a b show ?thesis by simp
qed

lemmas step_defs = step0_KillDeezer_def step0_CheckIfPatched_def checkPatchSignature_def
  askUserConfirmation_def step1_CreateBackup_def step2_CreateTempFolder_def step3_ExtractAsar_def
  step4_RenameMainJs_def step5_CopyNewMainJs_def step6_AddGhosteryDependencies_def
  step7_RepackAsar_def step8_CopyBack_def cleanup_def originalAsar_def backupFile_def
  extractPath_def newAsarPath_def tempCheck_def

lemmas monad_defs = then_do_def and_then_def try_catch_def Let_def

lemma tool_keeps_sample: "tool_keeps sample_env p"
  unfolding tool_keeps_def
proof (intro allI impI)
  fix n c f t
  assume "\<not> may_write c p"
  then show "fst (snd (tool sample_env n c f t)) p = f p"
    by (cases c) (auto simp: sample_env_def sample_tool_def split: option.splits node.splits)
qed

lemma sample_constructed:
  "DeezerPatcher sample_env (at_start f) = Return sample_patcher (at_start f)"
  by (simp add: DeezerPatcher_def detectPackageManager_def getPlatformPaths_def sample_env_def
      sample_patcher_def at_start_def str_includes_def sublist_code string_of_nat.simps)

lemma garbage_throws:
  "thrown (before_copy sample_patcher sample_env (at_start (installed ''garbage''))) =
     Some (CommandFailed (AsarExtract ''npm'' sample_live [''C:'', ''Temp'', ''deezer-patch-5'', ''extracted'']))"
  by (simp add: before_copy_def step_defs monad_defs prim_defs sample_defs)

theorem live_archive_untouched_before_copy_witness:
  "thrown (before_copy sample_patcher sample_env (at_start (installed ''garbage''))) =
     Some (CommandFailed (AsarExtract ''npm'' sample_live [''C:'', ''Temp'', ''deezer-patch-5'', ''extracted'']))
   \<and> files (state_of (run sample_patcher sample_env (at_start (installed ''garbage'')))) sample_live
       = Some (File ''garbage'' 1)"
proof -
  have np: "\<not> prefix (os_tmpdir sample_env) (originalAsar sample_patcher)"
    by (simp add: sample_defs originalAsar_def)
  from live_archive_untouched_before_copy [OF sample_constructed tool_keeps_sample np,
      of "at_start (installed ''garbage'')"]
    garbage_throws thrown_not_returned [OF garbage_throws]
  show ?thesis by (simp add: originalAsar_def sample_defs)
qed

section \<open>The scratch workspace\<close>

lemma and_then_ReturnD: "and_then m k s = Return a s' \<Longrightarrow> \<exists>s0. k s0 = Return a s'"
  by (auto simp: and_then_def then_do_def split: result.splits)

lemma cleanup_removes: "\<not> existsSync (tempDir P) (state_of (cleanup P s))"
  by (simp add: cleanup_def rmSync_def existsSync_def)

lemma pipeline_Return_clean:
  assumes "platform P = ''win32''" and "pipeline P E s = Return () s'"
  shows "\<not> existsSync (tempDir P) s'"
proof -
  from assms obtain s0 where "cleanup P s0 = Return () s'"
    unfolding pipeline_split [OF assms(1)] by (blast dest: and_then_ReturnD)
  then have "s' = state_of (cleanup P s0)" by simp
  then show ?thesis by (simp add: cleanup_removes)
qed

lemma run_after_throw:
  "pipeline P E s = Throw e s' \<Longrightarrow> run P E s = Exit 1 (state_of (cleanup P s'))"
  by (simp add: run_def try_catch_def and_then_def then_do_def process_exit_def cleanup_def
      rmSync_def)

text \<open>
  C7. When the \<open>try\<close> block of \<open>run\<close> returns (every step completed) or throws (a step
  threw), the scratch workspace \<open>tempDir\<close> does not exist in the state \<open>run\<close> leaves. On
  a platform other than Windows, where \<open>run\<close> returns without running a step, this needs
  that the directory did not exist before.
\<close>

theorem run_removes_workspace:
  assumes "exited (pipeline P E s) = None"
    and "platform P = ''win32'' \<or> \<not> existsSync (tempDir P) s"
  shows "\<not> existsSync (tempDir P) (state_of (run P E s))"
proof (cases "pipeline P E s")
  case (Return a s')
  show ?thesis
  proof (cases "platform P = ''win32''")
    case True
    with Return show ?thesis
      using pipeline_Return_clean [OF True, of E s s'] by (simp add: run_def try_catch_def)
  next
    case False
    with assms(2) show ?thesis by (simp add: run_def pipeline_def try_catch_def)
  qed
next
  case (Throw e s')
  then show ?thesis
    using cleanup_removes [of P s'] by (simp add: run_after_throw)
next
  case (Exit c s')
  with assms(1) show ?thesis by simp
qed

lemma sample_run_succeeds:
  "returned (pipeline sample_patcher sample_env (at_start (installed ''ASARoriginal''))) = Some ()"
  by (simp add: pipeline_def step_defs monad_defs prim_defs sample_defs)

lemma sample_run_creates_workspace:
  "Mkdir (tempDir sample_patcher)
     \<in> set (trace (state_of (run sample_patcher sample_env (at_start (installed ''ASARoriginal'')))))"
  by (simp add: run_def pipeline_def step_defs monad_defs prim_defs sample_defs)

lemma garbage_run_creates_workspace:
  "Mkdir (tempDir sample_patcher)
     \<in> set (trace (state_of (run sample_patcher sample_env (at_start (installed ''garbage'')))))"
  by (simp add: run_def pipeline_def step_defs monad_defs prim_defs sample_defs)

lemma garbage_run_throws:
  "thrown (pipeline sample_patcher sample_env (at_start (installed ''garbage''))) =
     Some (CommandFailed (AsarExtract ''npm'' sample_live [''C:'', ''Temp'', ''deezer-patch-5'', ''extracted'']))"
  by (simp add: pipeline_def step_defs monad_defs prim_defs sample_defs)

theorem run_removes_workspace_witness:
  "returned (pipeline sample_patcher sample_env (at_start (installed ''ASARoriginal''))) = Some ()
   \<and> Mkdir (tempDir sample_patcher)
       \<in> set (trace (state_of (run sample_patcher sample_env (at_start (installed ''ASARoriginal'')))))
   \<and> \<not> existsSync (tempDir sample_patcher)
         (state_of (run sample_patcher sample_env (at_start (installed ''ASARoriginal''))))
   \<and> thrown (pipeline sample_patcher sample_env (at_start (installed ''garbage''))) =
       Some (CommandFailed (AsarExtract ''npm'' sample_live [''C:'', ''Temp'', ''deezer-patch-5'', ''extracted'']))
   \<and> Mkdir (tempDir sample_patcher)
       \<in> set (trace (state_of (run sample_patcher sample_env (at_start (installed ''garbage'')))))
   \<and> \<not> existsSync (tempDir sample_patcher)
         (state_of (run sample_patcher sample_env (at_start (installed ''garbage''))))"
proof -
  have w: "platform sample_patcher = ''win32'' \<or> \<not> existsSync (tempDir sample_patcher) s" for s
    by (simp add: sample_patcher_def)
  from run_removes_workspace [OF returned_not_exited [OF sample_run_succeeds] w]
    run_removes_workspace [OF thrown_not_exited [OF garbage_run_throws] w]
    sample_run_succeeds sample_run_creates_workspace garbage_run_throws garbage_run_creates_workspace
  show ?thesis by simp
qed

text \<open>What follows from a missed patch: the run goes on as on a fresh installation, makes
  the patched archive the backup and patches the patched archive again.\<close>

lemma undetected_patch_is_patched_again:
  "returned (pipeline stock_patcher stock_env patched_start) = Some ()
   \<and> files (state_of (run stock_patcher stock_env patched_start)) sample_backup
       = Some (File ''ASARconsole.log([inject])'' 5)
   \<and> Exec (AsarExtract ''pnpm'' sample_live [''C:'', ''Temp'', ''deezer-patch-5'', ''extracted''])
       \<in> set (trace (state_of (run stock_patcher stock_env patched_start)))"
  by (simp add: run_def pipeline_def step_defs monad_defs prim_defs sample_defs patched_start_def
      stock_env_def stock_tool_def stock_patcher_def)

section \<open>Which archive is extracted\<close>

lemma flag_prims:
  "preserves (flag_is b) (mkdirSync p)"
  "preserves (flag_is b) (rmSync p)"
  "preserves (flag_is b) (readFileSync p)"
  "preserves (flag_is b) (copyFileSync p q)"
  "preserves (flag_is b) (renameSync p q)"
  "preserves (flag_is b) (execSync E c)"
  "preserves (flag_is b) (sleep n)"
  by (auto simp: preserves_def flag_is_def mkdirSync_def rmSync_def readFileSync_def
      copyFileSync_def renameSync_def execSync_def sleep_def emit_def
      split: option.splits node.splits prod.splits)

lemma flag_step0_KillDeezer: "preserves (flag_is b) (step0_KillDeezer P E)"
  by (intro pres_step0_KillDeezer flag_prims)

lemma flag_checkPatchSignature: "preserves (flag_is b) (checkPatchSignature P E a)"
  by (intro pres_checkPatchSignature flag_prims)

lemma flag_step1_CreateBackup: "preserves (flag_is b) (step1_CreateBackup P E)"
  using preservesD [OF flag_prims(4), of b _ "originalAsar P" "backupFile P"]
  by (simp add: preserves_def step1_CreateBackup_def)

lemma flag_step2_CreateTempFolder: "preserves (flag_is b) (step2_CreateTempFolder P E)"
proof -
  have "preserves (flag_is b) (and_then m (mkdirSync (tempDir P)))"
    if "preserves (flag_is b) m" for m :: "unit prog"
    using that by (intro pres_and_then flag_prims)
  from this [OF flag_prims(2)] this [OF pres_Return]
  show ?thesis by (simp add: preserves_def step2_CreateTempFolder_def)
qed

lemma flag_after_step0_CheckIfPatched:
  assumes "\<not> useExistingBackup s1" and "step0_CheckIfPatched P E s1 = Return () s2"
  shows "useExistingBackup s2 = (returned (checkPatchSignature P E (originalAsar P) s1) = Some True)"
proof -
  obtain b s' where c: "checkPatchSignature P E (originalAsar P) s1 = Return b s'"
    using checkPatchSignature_returns by blast
  from preservesD [OF flag_checkPatchSignature, of False s1 P E "originalAsar P"] assms(1) c
  have f: "\<not> useExistingBackup s'" by (simp add: flag_is_def)
  from assms(2) c f show ?thesis
    by (auto simp: step0_CheckIfPatched_def then_do_def askUserConfirmation_def process_exit_def
        emit_def split: if_splits)
qed

text \<open>
  C5. The extraction step runs the extract command on the backup when
  \<open>useExistingBackup\<close> is set and on the live archive otherwise, into the workspace.
  And the flag is set at that point exactly when the detector found the live archive
  patched: starting with the flag unset (as the constructor leaves it), if steps 0 to 2
  return, then the flag at the extraction step is true iff \<open>checkPatchSignature\<close>, run
  on the live archive after the kill step, returned true. So a re-patch extracts from
  the backup.
\<close>

theorem step3_source:
  "step3_ExtractAsar P E s3 =
     execSync E (AsarExtract (packageManager P)
                   (if useExistingBackup s3 then backupFile P else originalAsar P) (extractPath P)) s3
   \<and> (\<not> useExistingBackup s \<and>
      and_then (step0_KillDeezer P E) (and_then (step0_CheckIfPatched P E)
        (and_then (step1_CreateBackup P E) (step2_CreateTempFolder P E))) s = Return () s3
      \<longrightarrow> useExistingBackup s3 =
            (returned (checkPatchSignature P E (originalAsar P) (state_of (step0_KillDeezer P E s)))
               = Some True))"
proof (intro conjI impI)
  show "step3_ExtractAsar P E s3 =
     execSync E (AsarExtract (packageManager P)
                   (if useExistingBackup s3 then backupFile P else originalAsar P) (extractPath P)) s3"
    by (simp add: step3_ExtractAsar_def backupFile_def originalAsar_def)
next
  assume a: "\<not> useExistingBackup s \<and>
      and_then (step0_KillDeezer P E) (and_then (step0_CheckIfPatched P E)
        (and_then (step1_CreateBackup P E) (step2_CreateTempFolder P E))) s = Return () s3"
  obtain s1 where k: "step0_KillDeezer P E s = Return () s1"
    using step0_KillDeezer_returns by blast
  from preservesD [OF flag_step0_KillDeezer, of False s P E] a k
  have f1: "\<not> useExistingBackup s1" by (simp add: flag_is_def)
  from a k obtain s2 s2' where
    c: "step0_CheckIfPatched P E s1 = Return () s2" and
    b: "step1_CreateBackup P E s2 = Return () s2'" and
    t: "step2_CreateTempFolder P E s2' = Return () s3"
    by (auto simp: and_then_def then_do_def split: result.splits)
  from preservesD [OF flag_step1_CreateBackup, of "useExistingBackup s2" s2 P E] b
  have "useExistingBackup s2' = useExistingBackup s2" by (simp add: flag_is_def)
  moreover from preservesD [OF flag_step2_CreateTempFolder, of "useExistingBackup s2'" s2' P E] t
  have "useExistingBackup s3 = useExistingBackup s2'" by (simp add: flag_is_def)
  ultimately show "useExistingBackup s3 =
            (returned (checkPatchSignature P E (originalAsar P) (state_of (step0_KillDeezer P E s)))
               = Some True)"
    using flag_after_step0_CheckIfPatched [OF f1 c] k by simp
qed

lemma repatch_steps_return:
  "returned (and_then (step0_KillDeezer sample_patcher sample_env)
      (and_then (step0_CheckIfPatched sample_patcher sample_env)
        (and_then (step1_CreateBackup sample_patcher sample_env)
          (step2_CreateTempFolder sample_patcher sample_env))) repatch_start) = Some ()"
  by (simp add: repatch_start_def step_defs monad_defs prim_defs sample_defs toLowerCase_def
      trim_def is_space_def)

lemma repatch_detected:
  "returned (checkPatchSignature sample_patcher sample_env (originalAsar sample_patcher)
      (state_of (step0_KillDeezer sample_patcher sample_env repatch_start))) = Some True"
  by (simp add: repatch_start_def step_defs monad_defs prim_defs sample_defs)

theorem step3_source_witness:
  "\<not> useExistingBackup repatch_start
   \<and> returned (and_then (step0_KillDeezer sample_patcher sample_env)
      (and_then (step0_CheckIfPatched sample_patcher sample_env)
        (and_then (step1_CreateBackup sample_patcher sample_env)
          (step2_CreateTempFolder sample_patcher sample_env))) repatch_start) = Some ()
   \<and> useExistingBackup (state_of (and_then (step0_KillDeezer sample_patcher sample_env)
      (and_then (step0_CheckIfPatched sample_patcher sample_env)
        (and_then (step1_CreateBackup sample_patcher sample_env)
          (step2_CreateTempFolder sample_patcher sample_env))) repatch_start))
   \<and> trace (state_of (step3_ExtractAsar sample_patcher sample_env
        (state_of (and_then (step0_KillDeezer sample_patcher sample_env)
          (and_then (step0_CheckIfPatched sample_patcher sample_env)
            (and_then (step1_CreateBackup sample_patcher sample_env)
              (step2_CreateTempFolder sample_patcher sample_env))) repatch_start)))) =
      [Exec TaskList, Mkdir [''C:'', ''Temp'', ''deezer-check-5''],
       Exec (AsarExtract ''npm'' sample_live [''C:'', ''Temp'', ''deezer-check-5'']),
       Rm [''C:'', ''Temp'', ''deezer-check-5''],
       Prompt ''Deezer is already patched. Do you want to repatch using the backup file? (y/n): '',
       Mkdir [''C:'', ''Temp'', ''deezer-patch-5''],
       Exec (AsarExtract ''npm'' sample_backup [''C:'', ''Temp'', ''deezer-patch-5'', ''extracted''])]"
proof -
  let ?s3 = "state_of (and_then (step0_KillDeezer sample_patcher sample_env)
      (and_then (step0_CheckIfPatched sample_patcher sample_env)
        (and_then (step1_CreateBackup sample_patcher sample_env)
          (step2_CreateTempFolder sample_patcher sample_env))) repatch_start)"
  have f: "\<not> useExistingBackup repatch_start" by (simp add: repatch_start_def at_start_def)
  have tr: "trace ?s3 =
      [Exec TaskList, Mkdir [''C:'', ''Temp'', ''deezer-check-5''],
       Exec (AsarExtract ''npm'' sample_live [''C:'', ''Temp'', ''deezer-check-5'']),
       Rm [''C:'', ''Temp'', ''deezer-check-5''],
       Prompt ''Deezer is already patched. Do you want to repatch using the backup file? (y/n): '',
       Mkdir [''C:'', ''Temp'', ''deezer-patch-5'']]"
    by (simp add: repatch_start_def step_defs monad_defs prim_defs sample_defs toLowerCase_def
        trim_def is_space_def)
  from step3_source [of sample_patcher sample_env ?s3 repatch_start]
    f returned_SomeD [OF repatch_steps_return] repatch_steps_return repatch_detected tr
  show ?thesis
    by (simp add: execSync_def emit_def backupFile_def extractPath_def sample_patcher_def
        sample_backup_def split: prod.splits)
qed

section \<open>The backup\<close>

lemma frame_pipeline:
  assumes "tool_keeps E p" and "\<not> prefix (tempDir P) p" and "\<And>t. \<not> prefix (tempCheck E t) p"
    and "v \<noteq> None" and "p \<noteq> originalAsar P"
  shows "preserves (frame p v) (pipeline P E)"
proof -
  have "preserves (frame p v)
     (and_then (step0_KillDeezer P E)
     (and_then (step0_CheckIfPatched P E)
     (and_then (step1_CreateBackup P E)
     (and_then (step2_CreateTempFolder P E)
     (and_then (step3_ExtractAsar P E)
     (and_then (step4_RenameMainJs P E)
     (and_then (step5_CopyNewMainJs P E)
     (and_then (step6_AddGhosteryDependencies P E)
     (and_then (step7_RepackAsar P E)
               (step8_CopyBack P E))))))))))"
    by (intro pres_and_then frame_step0_KillDeezer
        frame_step0_CheckIfPatched frame_step1_CreateBackup frame_step2_CreateTempFolder
        frame_step3_ExtractAsar frame_step4_RenameMainJs frame_step5_CopyNewMainJs
        frame_step6_AddGhosteryDependencies frame_step7_RepackAsar frame_step8_CopyBack
        assms disjI1 disjI2)
  then show ?thesis by (simp add: pipeline_def)
qed

lemma frame_run:
  assumes "tool_keeps E p" and "\<not> prefix (tempDir P) p" and "\<And>t. \<not> prefix (tempCheck E t) p"
    and "v \<noteq> None" and "p \<noteq> originalAsar P"
  shows "preserves (frame p v) (run P E)"
  unfolding run_def
  by (intro pres_try_catch pres_and_then frame_pipeline frame_cleanup pres_process_exit assms)

lemma step1_CreateBackup_existing:
  "existsSync (backupFile P) s \<Longrightarrow> state_of (step1_CreateBackup P E s) = s"
  by (simp add: step1_CreateBackup_def)

lemma step1_CreateBackup_twice:
  "files (state_of (step1_CreateBackup P E (state_of (step1_CreateBackup P E s)))) =
   files (state_of (step1_CreateBackup P E s))"
  by (auto simp: step1_CreateBackup_def copyFileSync_def existsSync_def emit_def
      split: option.splits node.splits)

text \<open>
  C4. (1) When the backup exists, \<open>step1_CreateBackup\<close> leaves the whole state as it is,
  with the flag unset (and with it set). (2) Called twice in a row, the second call
  leaves the file system the first call left: the backup the first call made is not
  made again. (3) No later run overwrites it: for a patcher built by the constructor,
  when no child process writes outside what it was told to write and the backup does
  not lie in the temporary directory, a backup that exists when \<open>run\<close> starts is the
  same (text and modification time) when \<open>run\<close> ends.
\<close>

theorem backup_never_overwritten:
  "(existsSync (backupFile P) s \<longrightarrow> state_of (step1_CreateBackup P E s) = s)
   \<and> files (state_of (step1_CreateBackup P E (state_of (step1_CreateBackup P E s)))) (backupFile P) =
       files (state_of (step1_CreateBackup P E s)) (backupFile P)
   \<and> (DeezerPatcher E s0 = Return P s0' \<and> tool_keeps E (backupFile P)
        \<and> \<not> prefix (os_tmpdir E) (backupFile P) \<and> existsSync (backupFile P) s
      \<longrightarrow> files (state_of (run P E s)) (backupFile P) = files s (backupFile P))"
proof (intro conjI impI)
  show "state_of (step1_CreateBackup P E s) = s" if "existsSync (backupFile P) s"
    using that by (rule step1_CreateBackup_existing)
  show "files (state_of (step1_CreateBackup P E (state_of (step1_CreateBackup P E s)))) (backupFile P) =
       files (state_of (step1_CreateBackup P E s)) (backupFile P)"
    by (simp add: step1_CreateBackup_twice)
next
  assume a: "DeezerPatcher E s0 = Return P s0' \<and> tool_keeps E (backupFile P)
        \<and> \<not> prefix (os_tmpdir E) (backupFile P) \<and> existsSync (backupFile P) s"
  let ?p = "backupFile P"
  have td: "\<not> prefix (tempDir P) ?p"
    using a by (simp add: DeezerPatcher_fields(1) [of E s0 P s0'] not_prefix_append)
  have tc: "\<not> prefix (tempCheck E t) ?p" for t
    using a by (simp add: tempCheck_def not_prefix_append)
  have nb: "?p \<noteq> originalAsar P"
    using a by (simp add: originalAsar_def backupFile_def DeezerPatcher_fields(2) [of E s0 P s0'])
  have "preserves (frame ?p (files s ?p)) (run P E)"
    using a td tc nb by (intro frame_run) (simp_all add: existsSync_def)
  then show "files (state_of (run P E s)) ?p = files s ?p"
    by (rule frame_app) simp
qed

theorem backup_never_overwritten_witness:
  "existsSync (backupFile sample_patcher) repatch_start
   \<and> files repatch_start (backupFile sample_patcher) = Some (File ''ASARoriginal'' 0)
   \<and> state_of (step1_CreateBackup sample_patcher sample_env repatch_start) = repatch_start
   \<and> returned (run sample_patcher sample_env repatch_start) = Some ()
   \<and> files (state_of (run sample_patcher sample_env repatch_start)) (backupFile sample_patcher)
       = Some (File ''ASARoriginal'' 0)"
proof -
  have e: "existsSync (backupFile sample_patcher) repatch_start"
    and f: "files repatch_start (backupFile sample_patcher) = Some (File ''ASARoriginal'' 0)"
    and n: "\<not> prefix (os_tmpdir sample_env) (backupFile sample_patcher)"
    by (simp_all add: repatch_start_def sample_defs backupFile_def existsSync_def)
  have r: "returned (run sample_patcher sample_env repatch_start) = Some ()"
    by (simp add: run_def pipeline_def repatch_start_def step_defs monad_defs prim_defs sample_defs
        toLowerCase_def trim_def is_space_def)
  from backup_never_overwritten [of sample_patcher repatch_start sample_env "at_start f" "at_start f"]
    e f n r sample_constructed [of f] tool_keeps_sample [of "backupFile sample_patcher"]
  show ?thesis by simp
qed

section \<open>Refusing to patch twice without a backup\<close>

lemma emitted_execSync: "Exec c \<in> A \<Longrightarrow> preserves (emitted_only tr A) (execSync E c)"
  by (auto simp: preserves_def emitted_only_def execSync_def emit_def split: prod.splits)

lemma emitted_sleep: "preserves (emitted_only tr A) (sleep n)"
  by (auto simp: preserves_def emitted_only_def sleep_def)

lemma emitted_step0_KillDeezer:
  "preserves (emitted_only tr {Exec TaskList, Exec (TaskKill False), Exec (TaskKill True)})
     (step0_KillDeezer P E)"
proof -
  have "Exec (TaskKill b) \<in> {Exec TaskList, Exec (TaskKill False), Exec (TaskKill True)}" for b
    by (cases b) simp_all
  then show ?thesis
    by (intro pres_step0_KillDeezer emitted_execSync emitted_sleep) simp_all
qed

lemma checkPatchSignature_True_trace:
  assumes "checkPatchSignature P E a s1 = Return True s2"
  shows "trace s2 = trace s1 @ [Mkdir (tempCheck E (now s1)),
                               Exec (AsarExtract ''npm'' a (tempCheck E (now s1))),
                               Rm (tempCheck E (now s1))]"
  using assms
  by (auto simp: checkPatchSignature_def try_catch_def and_then_def then_do_def Let_def
      mkdirSync_def execSync_def rmSync_def readFileSync_def emit_def
      split: result.splits if_splits prod.splits option.splits node.splits)

lemma run_exits_without_backup:
  assumes "platform P = ''win32''"
    and "step0_KillDeezer P E s = Return () s1"
    and "existsSync (originalAsar P) s1"
    and "checkPatchSignature P E (originalAsar P) s1 = Return True s2"
    and "\<not> existsSync (backupFile P) s2"
  shows "run P E s = Exit 1 s2"
  using assms
  by (simp add: run_def pipeline_def try_catch_def and_then_def then_do_def
      step0_CheckIfPatched_def process_exit_def)

text \<open>
  C6. On Windows, when the live archive exists, the detector returns true on it and no
  backup exists then: \<open>run\<close> ends by \<open>process.exit(1)\<close> in the very state the detector
  left. All the process did is: the commands of the kill step, the creation of the
  throwaway directory, the extraction into it and its removal. So the scratch workspace
  was not created, nothing was extracted into it, and nothing was copied or renamed.
  And no file or directory that existed at the start outside the temporary directory
  has changed, as far as the child processes write only below what they are told to
  write.
\<close>

theorem refuses_without_backup:
  assumes "platform P = ''win32''"
    and "step0_KillDeezer P E s = Return () s1"
    and "existsSync (originalAsar P) s1"
    and "checkPatchSignature P E (originalAsar P) s1 = Return True s2"
    and "\<not> existsSync (backupFile P) s2"
  shows "run P E s = Exit 1 s2
       \<and> (\<exists>evs. trace s2 = trace s @ evs @
                    [Mkdir (tempCheck E (now s1)),
                     Exec (AsarExtract ''npm'' (originalAsar P) (tempCheck E (now s1))),
                     Rm (tempCheck E (now s1))]
                 \<and> set evs \<subseteq> {Exec TaskList, Exec (TaskKill False), Exec (TaskKill True)})
       \<and> (\<forall>p. tool_keeps E p \<and> \<not> prefix (os_tmpdir E) p \<and> files s p \<noteq> None
              \<longrightarrow> files s2 p = files s p)"
proof (intro conjI allI impI)
  show "run P E s = Exit 1 s2"
    using assms by (rule run_exits_without_backup)
next
  have "emitted_only (trace s) {Exec TaskList, Exec (TaskKill False), Exec (TaskKill True)}
          (state_of (step0_KillDeezer P E s))"
    by (rule preservesD [OF emitted_step0_KillDeezer]) (simp add: emitted_only_def)
  then obtain evs where "trace s1 = trace s @ evs"
    and "set evs \<subseteq> {Exec TaskList, Exec (TaskKill False), Exec (TaskKill True)}"
    using assms(2) by (auto simp: emitted_only_def)
  with checkPatchSignature_True_trace [OF assms(4)]
  show "\<exists>evs. trace s2 = trace s @ evs @
                    [Mkdir (tempCheck E (now s1)),
                     Exec (AsarExtract ''npm'' (originalAsar P) (tempCheck E (now s1))),
                     Rm (tempCheck E (now s1))]
                 \<and> set evs \<subseteq> {Exec TaskList, Exec (TaskKill False), Exec (TaskKill True)}"
    by auto
next
  fix p
  assume a: "tool_keeps E p \<and> \<not> prefix (os_tmpdir E) p \<and> files s p \<noteq> None"
  have "files (state_of (step0_KillDeezer P E s)) p = files s p"
    using a by (intro frame_app [OF frame_step0_KillDeezer]) simp_all
  then have 1: "files s1 p = files s p" using assms(2) by simp
  have "files (state_of (checkPatchSignature P E (originalAsar P) s1)) p = files s p"
    using a 1 by (intro frame_app [OF frame_checkPatchSignature])
      (simp_all add: tempCheck_def not_prefix_append)
  then show "files s2 p = files s p" using assms(4) by simp
qed

theorem refuses_without_backup_witness:
  "existsSync (originalAsar sample_patcher) (state_of (step0_KillDeezer sample_patcher sample_env patched_start))
   \<and> returned (checkPatchSignature sample_patcher sample_env (originalAsar sample_patcher)
        (state_of (step0_KillDeezer sample_patcher sample_env patched_start))) = Some True
   \<and> exited (run sample_patcher sample_env patched_start) = Some 1
   \<and> trace (state_of (run sample_patcher sample_env patched_start)) =
       [Exec TaskList, Mkdir [''C:'', ''Temp'', ''deezer-check-5''],
        Exec (AsarExtract ''npm'' sample_live [''C:'', ''Temp'', ''deezer-check-5'']),
        Rm [''C:'', ''Temp'', ''deezer-check-5'']]
   \<and> files (state_of (run sample_patcher sample_env patched_start)) sample_live =
       Some (File ''ASARconsole.log([inject])'' 1)"
proof -
  let ?s1 = "state_of (step0_KillDeezer sample_patcher sample_env patched_start)"
  let ?s2 = "state_of (checkPatchSignature sample_patcher sample_env (originalAsar sample_patcher) ?s1)"
  have w: "platform sample_patcher = ''win32''" by (simp add: sample_patcher_def)
  have k: "step0_KillDeezer sample_patcher sample_env patched_start = Return () ?s1"
    using step0_KillDeezer_returns [of sample_patcher sample_env patched_start] by auto
  have e: "existsSync (originalAsar sample_patcher) ?s1"
    by (simp add: patched_start_def step_defs monad_defs prim_defs sample_defs)
  have d: "returned (checkPatchSignature sample_patcher sample_env (originalAsar sample_patcher) ?s1)
             = Some True"
    by (simp add: patched_start_def step_defs monad_defs prim_defs sample_defs)
  have b: "\<not> existsSync (backupFile sample_patcher) ?s2"
    by (simp add: patched_start_def step_defs monad_defs prim_defs sample_defs)
  have tr: "trace ?s2 =
       [Exec TaskList, Mkdir [''C:'', ''Temp'', ''deezer-check-5''],
        Exec (AsarExtract ''npm'' sample_live [''C:'', ''Temp'', ''deezer-check-5'']),
        Rm [''C:'', ''Temp'', ''deezer-check-5'']]"
    and f: "files ?s2 sample_live = Some (File ''ASARconsole.log([inject])'' 1)"
    by (simp_all add: patched_start_def step_defs monad_defs prim_defs sample_defs)
  from refuses_without_backup [OF w k e returned_SomeD [OF d] b] e d tr f
  show ?thesis by simp
qed

section \<open>The replay of the captured listeners\<close>

lemma registrations_queue:
  "readyListeners (foldl (\<lambda>a' c. app_on (fst c) (snd c) a') a cs) =
     readyListeners a @ (if on_patched a then map snd (filter (\<lambda>c. fst c = ''ready'') cs) else [])
   \<and> on_patched (foldl (\<lambda>a' c. app_on (fst c) (snd c) a') a cs) = on_patched a
   \<and> history (foldl (\<lambda>a' c. app_on (fst c) (snd c) a') a cs) = history a"
  by (induction cs arbitrary: a) (auto simp: app_on_def app_on_wrapper_def originalAppOn_def)

lemma invoke_queue:
  "readyListeners (snd (invoke l a)) = readyListeners a @ (if on_patched a then ready_calls l else [])"
  by (simp add: invoke_def ready_calls_def registrations_queue)

lemma invoke_on_patched: "on_patched (snd (invoke l a)) = on_patched a"
  by (simp add: invoke_def registrations_queue)

lemma invoke_history: "history (snd (invoke l a)) = history a @ [Called (ident l)]"
  by (simp add: invoke_def registrations_queue)

lemma called_append [simp]: "called (h @ k) = called h @ called k"
  by (induction h rule: called.induct) simp_all

lemma caught_append [simp]: "caught (h @ k) = caught h @ caught k"
  by (induction h rule: caught.induct) simp_all

lemma invoke_throws: "fst (invoke l a) = throws l"
  by (simp add: invoke_def)

lemma replay_on_patched: "on_patched (replay i a) = on_patched a"
proof (induction i a rule: replay.induct)
  case (1 i a)
  show ?case
  proof (cases "i < length (readyListeners a)")
    case True
    obtain threw a' where inv: "invoke (readyListeners a ! i) a = (threw, a')"
      by (cases "invoke (readyListeners a ! i) a")
    from "1.IH" [OF True inv [symmetric]] True inv invoke_on_patched [of "readyListeners a ! i" a]
    show ?thesis by (subst replay.simps) (auto split: if_splits)
  next
    case False
    then show ?thesis by (subst replay.simps) simp
  qed
qed

lemma replay_queue_grows: "prefix (readyListeners a) (readyListeners (replay i a))"
proof (induction i a rule: replay.induct)
  case (1 i a)
  show ?case
  proof (cases "i < length (readyListeners a)")
    case True
    obtain threw a' where inv: "invoke (readyListeners a ! i) a = (threw, a')"
      by (cases "invoke (readyListeners a ! i) a")
    let ?a'' = "if threw then a'\<lparr>history := history a' @ [Caught (ident (readyListeners a ! i))]\<rparr> else a'"
    from invoke_queue [of "readyListeners a ! i" a] inv
    have "prefix (readyListeners a) (readyListeners ?a'')" by auto
    moreover from "1.IH" [OF True inv [symmetric]]
    have "prefix (readyListeners ?a'') (readyListeners (replay (Suc i) ?a''))" .
    moreover have "replay i a = replay (Suc i) ?a''"
      using True inv by (subst replay.simps) simp
    ultimately show ?thesis by (metis prefix_order.order_trans)
  next
    case False
    then show ?thesis by (subst replay.simps) simp
  qed
qed

lemma replay_history:
  "\<exists>rest. history (replay i a) = history a @ rest
     \<and> called rest = map ident (drop i (readyListeners (replay i a)))
     \<and> caught rest = map ident (filter throws (drop i (readyListeners (replay i a))))"
proof (induction i a rule: replay.induct)
  case (1 i a)
  show ?case
  proof (cases "i < length (readyListeners a)")
    case True
    let ?l = "readyListeners a ! i"
    obtain threw a' where inv: "invoke ?l a = (threw, a')"
      by (cases "invoke ?l a")
    let ?a'' = "if threw then a'\<lparr>history := history a' @ [Caught (ident ?l)]\<rparr> else a'"
    let ?F = "replay (Suc i) ?a''"
    have F: "replay i a = ?F"
      using True inv by (subst replay.simps) simp
    have thr: "threw = throws ?l" using inv invoke_throws [of ?l a] by simp
    have h'': "history ?a'' = history a @ (Called (ident ?l) # (if throws ?l then [Caught (ident ?l)] else []))"
      using inv invoke_history [of ?l a] thr by auto
    have "prefix (readyListeners a) (readyListeners (replay i a))" by (rule replay_queue_grows)
    then obtain ext where q: "readyListeners ?F = readyListeners a @ ext"
      unfolding F by (auto simp: prefix_def)
    with True have d: "drop i (readyListeners ?F) = ?l # drop (Suc i) (readyListeners ?F)"
      by (metis Cons_nth_drop_Suc length_append nth_append trans_less_add1)
    from "1.IH" [OF True inv [symmetric]] obtain rest where
      r: "history ?F = history ?a'' @ rest"
      "called rest = map ident (drop (Suc i) (readyListeners ?F))"
      "caught rest = map ident (filter throws (drop (Suc i) (readyListeners ?F)))"
      by blast
    show ?thesis
      unfolding F
      by (rule exI [of _ "(Called (ident ?l) # (if throws ?l then [Caught (ident ?l)] else [])) @ rest"])
         (simp add: r h'' d)
  next
    case False
    then have "replay i a = a" by (subst replay.simps) simp
    with False show ?thesis by simp
  qed
qed

lemma registrations_emitter:
  "emitter (foldl (\<lambda>a' c. app_on (fst c) (snd c) a') a cs) =
     emitter a @ (if on_patched a then filter (\<lambda>c. fst c \<noteq> ''ready'') cs else cs)"
  by (induction cs arbitrary: a) (auto simp: app_on_def app_on_wrapper_def originalAppOn_def)

lemma initAdblocker_keeps:
  "readyListeners (snd (initAdblocker W a)) = readyListeners a"
  "history (snd (initAdblocker W a)) = history a"
  "on_patched (snd (initAdblocker W a)) = on_patched a"
  by (auto simp: initAdblocker_def complete_fallback_def manual_listeners_def ghostery_listeners_def
      app_on_def app_on_wrapper_def originalAppOn_def)

lemma bootstrap_history:
  "\<exists>rest. history (bootstrap W a) =
            history a @ [WhenReady, Settled (fst (initAdblocker W (a\<lparr>history := history a @ [WhenReady]\<rparr>)))]
              @ rest @ [Restored]
     \<and> called rest = map ident (readyListeners (bootstrap W a))
     \<and> caught rest = map ident (filter throws (readyListeners (bootstrap W a)))"
proof -
  obtain r a2 where i: "initAdblocker W (a\<lparr>history := history a @ [WhenReady]\<rparr>) = (r, a2)"
    by (cases "initAdblocker W (a\<lparr>history := history a @ [WhenReady]\<rparr>)")
  from initAdblocker_keeps(2) [of W "a\<lparr>history := history a @ [WhenReady]\<rparr>"] i
  have h2: "history a2 = history a @ [WhenReady]" by simp
  from replay_history [of 0 "a2\<lparr>history := history a2 @ [Settled r]\<rparr>"] obtain rest where
    "history (replay 0 (a2\<lparr>history := history a2 @ [Settled r]\<rparr>)) = (history a2 @ [Settled r]) @ rest"
    "called rest = map ident (readyListeners (replay 0 (a2\<lparr>history := history a2 @ [Settled r]\<rparr>)))"
    "caught rest = map ident (filter throws (readyListeners (replay 0 (a2\<lparr>history := history a2 @ [Settled r]\<rparr>))))"
    by auto
  with i h2 show ?thesis
    by (intro exI [of _ rest]) (simp add: bootstrap_def Let_def)
qed

lemma bootstrap_queue: "prefix (readyListeners a) (readyListeners (bootstrap W a))"
proof -
  obtain r a2 where i: "initAdblocker W (a\<lparr>history := history a @ [WhenReady]\<rparr>) = (r, a2)"
    by (cases "initAdblocker W (a\<lparr>history := history a @ [WhenReady]\<rparr>)")
  from initAdblocker_keeps(1) [of W "a\<lparr>history := history a @ [WhenReady]\<rparr>"] i
  have "readyListeners a2 = readyListeners a" by simp
  with replay_queue_grows [of "a2\<lparr>history := history a2 @ [Settled r]\<rparr>" 0] i
  show ?thesis by (simp add: bootstrap_def Let_def)
qed

lemma bootstrap_extension_history:
  "\<exists>rest. history (bootstrap_extension W a) =
            history a @ [WhenReady, ExtensionSettled (extension_loads W)] @ rest @ [Restored]
     \<and> called rest = map ident (readyListeners (bootstrap_extension W a))
     \<and> caught rest = map ident (filter throws (readyListeners (bootstrap_extension W a)))"
proof -
  from replay_history [of 0 "a\<lparr>history := history a @ [WhenReady, ExtensionSettled (extension_loads W)]\<rparr>"]
  obtain rest where
    "history (replay 0 (a\<lparr>history := history a @ [WhenReady, ExtensionSettled (extension_loads W)]\<rparr>))
       = (history a @ [WhenReady, ExtensionSettled (extension_loads W)]) @ rest"
    "called rest = map ident (readyListeners
       (replay 0 (a\<lparr>history := history a @ [WhenReady, ExtensionSettled (extension_loads W)]\<rparr>)))"
    "caught rest = map ident (filter throws (readyListeners
       (replay 0 (a\<lparr>history := history a @ [WhenReady, ExtensionSettled (extension_loads W)]\<rparr>))))"
    by auto
  then show ?thesis
    by (intro exI [of _ rest]) (simp add: bootstrap_extension_def Let_def)
qed

lemma bootstrap_extension_queue: "prefix (readyListeners a) (readyListeners (bootstrap_extension W a))"
  using replay_queue_grows [of "a\<lparr>history := history a @ [WhenReady, ExtensionSettled (extension_loads W)]\<rparr>" 0]
  by (simp add: bootstrap_extension_def Let_def)

text \<open>
  C8. While the original main module loads, each \<open>app.on('ready', l)\<close> only appends \<open>l\<close>
  to \<open>readyListeners\<close>, in the order of the calls; the listeners of other events, and
  only they, go to the real emitter. And in what the wrapper does, the calls of the
  listeners all come after the ad blocker has settled (with the engine, with the manual
  rules, or with nothing): they are the listeners of the queue, first to last, each
  once, and the queue begins with the captured ones in their registration order.
\<close>

theorem ready_listeners_deferred:
  "readyListeners (require_original W (install a)) = map snd (filter (\<lambda>c. fst c = ''ready'') (main_calls W))
   \<and> emitter (require_original W (install a)) = emitter a @ filter (\<lambda>c. fst c \<noteq> ''ready'') (main_calls W)
   \<and> (\<exists>r rest. history (wrapper W a) = history a @ [WhenReady, Settled r] @ rest @ [Restored]
         \<and> called rest = map ident (readyListeners (wrapper W a))
         \<and> prefix (map snd (filter (\<lambda>c. fst c = ''ready'') (main_calls W))) (readyListeners (wrapper W a)))"
proof (intro conjI)
  show q: "readyListeners (require_original W (install a)) =
      map snd (filter (\<lambda>c. fst c = ''ready'') (main_calls W))"
    by (simp add: require_original_def registrations_queue install_def)
  show "emitter (require_original W (install a)) = emitter a @ filter (\<lambda>c. fst c \<noteq> ''ready'') (main_calls W)"
    by (simp add: require_original_def registrations_emitter install_def)
  have h: "history (require_original W (install a)) = history a"
    by (simp add: require_original_def registrations_queue install_def)
  from bootstrap_history [of W "require_original W (install a)"]
    bootstrap_queue [of "require_original W (install a)" W]
  show "\<exists>r rest. history (wrapper W a) = history a @ [WhenReady, Settled r] @ rest @ [Restored]
         \<and> called rest = map ident (readyListeners (wrapper W a))
         \<and> prefix (map snd (filter (\<lambda>c. fst c = ''ready'') (main_calls W))) (readyListeners (wrapper W a))"
    unfolding wrapper_def h q by blast
qed

lemmas wrapper_defs = wrapper_def bootstrap_def bootstrap_extension_def require_original_def
  install_def initAdblocker_def complete_fallback_def manual_listeners_def ghostery_listeners_def
  app_on_def app_on_wrapper_def originalAppOn_def invoke_def replay.simps sample_wrapper_env_def
  fresh_app_def Let_def

theorem ready_listeners_deferred_witness:
  "history (wrapper sample_wrapper_env fresh_app) =
     [WhenReady, Settled Manual, Called (Orig 1), Caught (Orig 1), Called (Orig 3), Called (Orig 4),
      Restored]
   \<and> map ident (readyListeners (require_original sample_wrapper_env (install fresh_app))) = [Orig 1, Orig 3]
   \<and> map fst (emitter (require_original sample_wrapper_env (install fresh_app))) = [''window-all-closed'']"
  using ready_listeners_deferred [of sample_wrapper_env fresh_app]
  by (simp add: wrapper_defs)

text \<open>
  C10. Whether listeners throw or not, both bootstraps (the ad-blocker wrapper and the
  extension loader) end with the original \<open>app.on\<close> restored; the calls they made are the
  listeners of the queue, first to last, one call each; the caught exceptions are those
  of the listeners that throw, one each; and the queue begins with the listeners that
  were captured before the bootstrap.
\<close>

theorem replay_survives_exceptions:
  "on_patched (bootstrap W a) = False
   \<and> prefix (readyListeners a) (readyListeners (bootstrap W a))
   \<and> called (history (bootstrap W a)) = called (history a) @ map ident (readyListeners (bootstrap W a))
   \<and> caught (history (bootstrap W a)) =
       caught (history a) @ map ident (filter throws (readyListeners (bootstrap W a)))
   \<and> last (history (bootstrap W a)) = Restored
   \<and> on_patched (bootstrap_extension W a) = False
   \<and> prefix (readyListeners a) (readyListeners (bootstrap_extension W a))
   \<and> called (history (bootstrap_extension W a)) =
       called (history a) @ map ident (readyListeners (bootstrap_extension W a))
   \<and> caught (history (bootstrap_extension W a)) =
       caught (history a) @ map ident (filter throws (readyListeners (bootstrap_extension W a)))
   \<and> last (history (bootstrap_extension W a)) = Restored"
proof -
  from bootstrap_history [of W a] obtain rest where b:
    "history (bootstrap W a) =
       history a @ [WhenReady, Settled (fst (initAdblocker W (a\<lparr>history := history a @ [WhenReady]\<rparr>)))]
         @ rest @ [Restored]"
    "called rest = map ident (readyListeners (bootstrap W a))"
    "caught rest = map ident (filter throws (readyListeners (bootstrap W a)))"
    by blast
  from bootstrap_extension_history [of W a] obtain rest' where e:
    "history (bootstrap_extension W a) =
       history a @ [WhenReady, ExtensionSettled (extension_loads W)] @ rest' @ [Restored]"
    "called rest' = map ident (readyListeners (bootstrap_extension W a))"
    "caught rest' = map ident (filter throws (readyListeners (bootstrap_extension W a)))"
    by blast
  have "on_patched (bootstrap W a) = False" "on_patched (bootstrap_extension W a) = False"
    by (simp_all add: bootstrap_def bootstrap_extension_def Let_def split: prod.splits)
  with b e bootstrap_queue [of a W] bootstrap_extension_queue [of a W] show ?thesis
    by simp
qed

theorem replay_survives_exceptions_witness:
  "map throws (readyListeners (require_original sample_wrapper_env (install fresh_app))) = [True, False]
   \<and> called (history (bootstrap sample_wrapper_env (require_original sample_wrapper_env (install fresh_app))))
       = [Orig 1, Orig 3, Orig 4]
   \<and> caught (history (bootstrap sample_wrapper_env (require_original sample_wrapper_env (install fresh_app))))
       = [Orig 1]
   \<and> history (bootstrap_extension sample_wrapper_env (require_original sample_wrapper_env (install fresh_app)))
       = [WhenReady, ExtensionSettled False, Called (Orig 1), Caught (Orig 1), Called (Orig 3),
          Called (Orig 4), Restored]
   \<and> on_patched (bootstrap sample_wrapper_env (require_original sample_wrapper_env (install fresh_app)))
       = False"
  using replay_survives_exceptions [of sample_wrapper_env
      "require_original sample_wrapper_env (install fresh_app)"]
  by (simp add: wrapper_defs)

end
